theory Spec2Isabelle
  imports Main "HOL-Library.Word" "HOL-Library.AList" "HOL-Library.Log_Nat" "HOL-Library.Monad_Syntax"
begin

section \<open>The Go library functions the program calls\<close>

text \<open>
  A Go \<open>string\<close> is a sequence of bytes; it is modelled as a \<open>char list\<close>, one
  \<open>char\<close> per byte. Go's \<open>int\<close> is modelled as \<open>int\<close> (the values that occur
  are indices and port numbers, far from the 64-bit bounds; \<open>Atoi\<close> checks the bound
  itself), and \<open>uint64\<close> as \<open>64 word\<close>, whose arithmetic wraps as Go's does.

  A call that returns \<open>(value, err)\<close> is modelled as a pair with an optional error, and
  a call that does not return (a run-time panic, \<open>os.Exit\<close>) as \<open>None\<close>.
\<close>

datatype error =
    RemoteError string
  | Errorf string error
  | BadPort string
  | PortOutOfRange int
  | MultiError "error list"

type_synonym 'a outcome = "('a \<times> error option) option"

subsection \<open>Package strings\<close>

text \<open>\<open>strings.HasPrefix\<close>.\<close>

fun HasPrefix :: "string \<Rightarrow> string \<Rightarrow> bool" where
  "HasPrefix s [] = True"
| "HasPrefix [] (p # ps) = False"
| "HasPrefix (c # cs) (p # ps) = (c = p \<and> HasPrefix cs ps)"

text \<open>\<open>strings.Index(s, substr)\<close>: the index of the first instance of \<open>substr\<close> in
  \<open>s\<close>, or \<open>-1\<close>.\<close>

fun Index :: "string \<Rightarrow> string \<Rightarrow> int" where
  "Index [] substr = (if substr = [] then 0 else -1)"
| "Index (c # cs) substr =
     (if HasPrefix (c # cs) substr then 0
      else (let i = Index cs substr in if i = -1 then -1 else i + 1))"

text \<open>\<open>strings.Split(s, sep)\<close> for a separator of one byte, the only kind the program
  passes: the pieces of \<open>s\<close> between the separators, so one piece more than there are
  separators.\<close>

fun SplitByte :: "string \<Rightarrow> char \<Rightarrow> string list" where
  "SplitByte [] sep = [[]]"
| "SplitByte (c # cs) sep =
     (if c = sep then [] # SplitByte cs sep
      else (case SplitByte cs sep of
              [] \<Rightarrow> [[c]]
            | p # ps \<Rightarrow> (c # p) # ps))"

text \<open>
  \<open>strings.Fields\<close> splits around runs of white space as \<open>unicode.IsSpace\<close> defines
  it. On a byte string Go decodes UTF-8; the white-space runes are the six ASCII ones and
  U+0085, U+00A0, U+1680, U+2000 to U+200A, U+2028, U+2029, U+202F, U+205F, U+3000.
  \<open>spaceLen s\<close> is the number of bytes of the white-space rune at the head of \<open>s\<close>,
  or \<open>0\<close> when there is none. The lead bytes of the multi-byte ones (C2, E1, E2, E3) are
  never continuation bytes, so decoding always starts afresh at them.
\<close>

definition asciiSpace :: "char \<Rightarrow> bool" where
  "asciiSpace c = (let n = (of_char c :: nat) in (9 \<le> n \<and> n \<le> 13) \<or> n = 32)"

fun spaceLen :: "string \<Rightarrow> nat" where
  "spaceLen [] = 0"
| "spaceLen (c # r) =
     (let n = (of_char c :: nat); bs = map of_char (take 2 r) :: nat list in
      if asciiSpace c then 1
      else if n = 0xC2 then
        (case bs of d # _ \<Rightarrow> if d = 0x85 \<or> d = 0xA0 then 2 else 0 | _ \<Rightarrow> 0)
      else if n = 0xE1 then (if bs = [0x9A, 0x80] then 3 else 0)
      else if n = 0xE2 then
        (case bs of
           [d, e] \<Rightarrow>
             if d = 0x80 \<and> ((0x80 \<le> e \<and> e \<le> 0x8A) \<or> e = 0xA8 \<or> e = 0xA9 \<or> e = 0xAF) then 3
             else if d = 0x81 \<and> e = 0x9F then 3
             else 0
         | _ \<Rightarrow> 0)
      else if n = 0xE3 then (if bs = [0x80, 0x80] then 3 else 0)
      else 0)"

text \<open>\<open>fieldsFrom skip cur s\<close>: \<open>skip\<close> bytes of a white-space rune are still to be
  passed over, \<open>cur\<close> holds the bytes of the field being read, last byte first.\<close>

fun fieldsFrom :: "nat \<Rightarrow> string \<Rightarrow> string \<Rightarrow> string list" where
  "fieldsFrom skip cur [] = (if cur = [] then [] else [rev cur])"
| "fieldsFrom skip cur (c # cs) =
     (if 0 < skip then fieldsFrom (skip - 1) cur cs
      else (let n = spaceLen (c # cs) in
        if 0 < n then (if cur = [] then fieldsFrom (n - 1) [] cs
                       else rev cur # fieldsFrom (n - 1) [] cs)
        else fieldsFrom 0 (c # cur) cs))"

definition Fields :: "string \<Rightarrow> string list" where
  "Fields s = fieldsFrom 0 [] s"

subsection \<open>Package strconv\<close>

definition isDigit :: "char \<Rightarrow> bool" where
  "isDigit c = (48 \<le> (of_char c :: nat) \<and> (of_char c :: nat) \<le> 57)"

definition decimal :: "string \<Rightarrow> nat" where
  "decimal s = foldl (\<lambda>n c. 10 * n + (of_char c - 48)) 0 s"

text \<open>\<open>strconv.ParseUint(s, 10, 64)\<close>: a non-empty string of decimal digits (no sign,
  no underscore) whose value is below \<open>2^64\<close>; anything else is an error, \<open>None\<close>.\<close>

definition ParseUint :: "string \<Rightarrow> 64 word option" where
  "ParseUint s =
     (if s = [] \<or> \<not> list_all isDigit s then None
      else if decimal s < 2 ^ 64 then Some (word_of_nat (decimal s)) else None)"

text \<open>\<open>strconv.Atoi\<close> on a 64-bit platform: an optional sign, then decimal digits, the
  value within the range of \<open>int64\<close>.\<close>

definition Atoi :: "string \<Rightarrow> int option" where
  "Atoi s =
     (let neg = (case s of c # _ \<Rightarrow> c = CHR ''-'' | [] \<Rightarrow> False);
          signed = (case s of c # _ \<Rightarrow> c = CHR ''-'' \<or> c = CHR ''+'' | [] \<Rightarrow> False);
          ds = (if signed then tl s else s);
          v = (if neg then - int (decimal ds) else int (decimal ds))
      in if ds = [] \<or> \<not> list_all isDigit ds then None
         else if - (2 ^ 63) \<le> v \<and> v < 2 ^ 63 then Some v else None)"

subsection \<open>Package bufio\<close>

text \<open>
  \<open>bufio.Scanner\<close> with its default split function \<open>ScanLines\<close> and its default
  buffer: each \<open>Scan\<close> yields the next line without its end-of-line marker (a newline,
  with one carriage return before it dropped); a last line with no newline is yielded
  when it is not empty. A line of more than 65535 bytes does not fit the buffer:
  \<open>Scan\<close> then returns false and the loop over the lines ends there.
\<close>

definition dropCR :: "string \<Rightarrow> string" where
  "dropCR data = (if data \<noteq> [] \<and> last data = CHR 0x0D then butlast data else data)"

fun scanFrom :: "string \<Rightarrow> string \<Rightarrow> string list" where
  "scanFrom cur [] = (if cur = [] \<or> 65535 < length cur then [] else [dropCR (rev cur)])"
| "scanFrom cur (c # cs) =
     (if c = CHR 0x0A
      then (if 65535 < length cur then [] else dropCR (rev cur) # scanFrom [] cs)
      else scanFrom (c # cur) cs)"

definition ScanLines :: "string \<Rightarrow> string list" where
  "ScanLines s = scanFrom [] s"

subsection \<open>Arithmetic of \<open>float32\<close>\<close>

text \<open>
  The CPU percentages are \<open>float32\<close> values computed from \<open>uint64\<close> counters by a
  conversion, a division and a multiplication by 100. All operands are non-negative, so
  the values that can arise are the non-negative finite numbers, positive infinity and
  NaN; a finite value is modelled by the rational it denotes. \<open>round32\<close> rounds a
  positive rational to the nearest number with a 24-bit significand, ties to even (IEEE 754
  binary32 in its normal range, which the quotients and products formed here never leave:
  they lie between \<open>2^-64\<close> and \<open>2^71\<close>). Division follows IEEE 754: \<open>0/0\<close> is NaN
  and \<open>x/0\<close> for \<open>x > 0\<close> is infinity; Go does not panic on floating-point division
  by zero.
\<close>

definition pow2 :: "int \<Rightarrow> rat" where
  "pow2 e = (if 0 \<le> e then 2 ^ nat e else 1 / 2 ^ nat (- e))"

definition ilog2 :: "rat \<Rightarrow> int" where
  "ilog2 x = (let (a, b) = quotient_of x; d = bitlen a - bitlen b
              in if pow2 d \<le> x then d else d - 1)"

definition roundEven :: "rat \<Rightarrow> int" where
  "roundEven x = (let f = \<lfloor>x\<rfloor>; d = x - of_int f in
     if d < 1 / 2 then f else if 1 / 2 < d then f + 1 else if even f then f else f + 1)"

definition round32 :: "rat \<Rightarrow> rat" where
  "round32 x = (if x \<le> 0 then 0 else
     (let e = ilog2 x - 23 in of_int (roundEven (x / pow2 e)) * pow2 e))"

datatype float32 = Finite rat | PosInf | NaN

fun fdiv :: "float32 \<Rightarrow> float32 \<Rightarrow> float32" where
  "fdiv (Finite a) (Finite b) =
     (if b = 0 then (if a = 0 then NaN else PosInf) else Finite (round32 (a / b)))"
| "fdiv (Finite a) PosInf = Finite 0"
| "fdiv PosInf (Finite b) = PosInf"
| "fdiv PosInf PosInf = NaN"
| "fdiv NaN y = NaN"
| "fdiv x NaN = NaN"

fun fmul :: "float32 \<Rightarrow> float32 \<Rightarrow> float32" where
  "fmul (Finite a) (Finite b) = Finite (round32 (a * b))"
| "fmul (Finite a) PosInf = (if a = 0 then NaN else PosInf)"
| "fmul PosInf (Finite b) = (if b = 0 then NaN else PosInf)"
| "fmul PosInf PosInf = PosInf"
| "fmul NaN y = NaN"
| "fmul x NaN = NaN"

text \<open>The conversion \<open>float32(x)\<close> of a \<open>uint64\<close>.\<close>

definition float32_of_uint64 :: "64 word \<Rightarrow> float32" where
  "float32_of_uint64 w = Finite (round32 (of_nat (unat w)))"

section \<open>Package types\<close>

record FSInfo =
  MountPoint :: string
  Total :: "64 word"
  Used :: "64 word"
  Free :: "64 word"

record NetIPAddr =
  IPv4 :: string
  IPv6 :: string

record NetDevInfo =
  Rx :: "64 word"
  Tx :: "64 word"

record NetInterface =
  NetIPAddr :: NetIPAddr
  NetDevInfo :: NetDevInfo

text \<open>
  A Go map is modelled as an association list read with \<open>map_of\<close> and written with
  \<open>AList.update\<close>; the order of the list stands for the order in which \<open>range\<close>
  happens to visit the keys, which Go leaves unspecified. The nil map is the empty list:
  reading it finds nothing and ranging over it visits nothing. \<open>addr[k]\<close> yields the
  zero value for a missing key.
\<close>

definition addrAt :: "(string \<times> NetIPAddr) list \<Rightarrow> string \<Rightarrow> NetIPAddr" where
  "addrAt addr k =
     (case map_of addr k of Some a \<Rightarrow> a | None \<Rightarrow> \<lparr>IPv4 = '''', IPv6 = ''''\<rparr>)"

text \<open>\<open>MergeNetInterfaces\<close>: collect the keys of \<open>addr\<close>, then for each key that
  \<open>dev\<close> has too store the pair of both entries.\<close>

definition MergeNetInterfaces ::
  "(string \<times> NetIPAddr) list \<Rightarrow> (string \<times> NetDevInfo) list \<Rightarrow> (string \<times> NetInterface) list" where
  "MergeNetInterfaces addr dev =
     (let keys = foldl (\<lambda>keys (k, _). keys @ [k]) [] addr in
      foldl (\<lambda>merged k.
               case map_of dev k of
                 Some d \<Rightarrow> AList.update k \<lparr>NetIPAddr = addrAt addr k, NetDevInfo = d\<rparr> merged
               | None \<Rightarrow> merged)
        [] keys)"

record CPURaw =
  User :: "64 word"
  Nice :: "64 word"
  System :: "64 word"
  Idle :: "64 word"
  Iowait :: "64 word"
  Irq :: "64 word"
  SoftIrq :: "64 word"
  Steal :: "64 word"
  Guest :: "64 word"
  Total :: "64 word"

record CPUInfo =
  User :: float32
  Nice :: float32
  System :: float32
  Idle :: float32
  IOWait :: float32
  IRQ :: float32
  SoftIRQ :: float32
  Steal :: float32
  Guest :: float32

record Loads =
  Load1 :: string
  Load5 :: string
  Load15 :: string
  RunningProcs :: string
  TotalProcs :: string

record MemInfo =
  Total :: "64 word"
  Free :: "64 word"
  Buffers :: "64 word"
  Cached :: "64 word"
  SwapTotal :: "64 word"
  SwapFree :: "64 word"

text \<open>The method \<open>MemInfo.Used\<close>, on \<open>uint64\<close>.\<close>

definition MemInfo_Used :: "MemInfo \<Rightarrow> 64 word" where
  "MemInfo_Used m = MemInfo.Total m - MemInfo.Free m - Buffers m - Cached m"

record Stats =
  Uptime :: int
  Hostname :: string
  Loads :: Loads
  CPU :: CPUInfo
  MEM :: MemInfo
  FSInfos :: "FSInfo list"
  NetInterface :: "(string \<times> NetInterface) list"

section \<open>Package client: the probes\<close>

text \<open>
  Every probe runs one command on the remote host through \<open>sshClient.Execute\<close> and
  parses its standard output. The remote side is a function \<open>exec\<close> from the command to
  its output or to the error of a failed run.
\<close>

subsection \<open>\<open>GetMemInfo\<close>\<close>

definition zeroMemInfo :: MemInfo where
  "zeroMemInfo = \<lparr>MemInfo.Total = 0, Free = 0, Buffers = 0, Cached = 0, SwapTotal = 0, SwapFree = 0\<rparr>"

definition setMem :: "string \<Rightarrow> 64 word \<Rightarrow> MemInfo \<Rightarrow> MemInfo" where
  "setMem key val res =
     (if key = ''MemTotal:'' then res\<lparr>MemInfo.Total := val\<rparr>
      else if key = ''MemFree:'' then res\<lparr>MemInfo.Free := val\<rparr>
      else if key = ''Buffers:'' then res\<lparr>Buffers := val\<rparr>
      else if key = ''Cached:'' then res\<lparr>Cached := val\<rparr>
      else if key = ''SwapTotal:'' then res\<lparr>SwapTotal := val\<rparr>
      else if key = ''SwapFree:'' then res\<lparr>SwapFree := val\<rparr>
      else res)"

fun scanMem :: "MemInfo \<Rightarrow> string list \<Rightarrow> MemInfo" where
  "scanMem res [] = res"
| "scanMem res (line # rest) =
     (let parts = Fields line in
      if length parts = 3 then
        (case ParseUint (parts ! 1) of
           None \<Rightarrow> scanMem res rest
         | Some val \<Rightarrow> scanMem (setMem (parts ! 0) (val * 1024) res) rest)
      else scanMem res rest)"

definition GetMemInfo :: "(string \<Rightarrow> error + string) \<Rightarrow> MemInfo outcome" where
  "GetMemInfo exec =
     (case exec ''/bin/cat /proc/meminfo'' of
        Inl err \<Rightarrow> Some (zeroMemInfo, Some (Errorf ''execute /bin/cat /proc/meminfo'' err))
      | Inr lines \<Rightarrow> Some (scanMem zeroMemInfo (ScanLines lines), None))"

subsection \<open>\<open>GetFSInfos\<close>\<close>

text \<open>\<open>parts[k]\<close> on a slice: out of range is a run-time panic, \<open>None\<close>.\<close>

definition elemAt :: "'a list \<Rightarrow> int \<Rightarrow> 'a option" where
  "elemAt xs k = (if 0 \<le> k \<and> k < int (length xs) then Some (xs ! nat k) else None)"

text \<open>
  The \<open>else\<close> branch of the loop body, for shift \<open>i\<close>: \<open>None\<close> is a panic,
  \<open>Some None\<close> a row skipped by \<open>continue\<close>, \<open>Some (Some fs)\<close> the entry appended.
  Each index expression is evaluated just before its \<open>ParseUint\<close>, as in the source.
\<close>

definition parseRow :: "int \<Rightarrow> string list \<Rightarrow> FSInfo option option" where
  "parseRow i parts =
     (case elemAt parts (1 - i) of
        None \<Rightarrow> None
      | Some f1 \<Rightarrow>
     (case ParseUint f1 of
        None \<Rightarrow> Some None
      | Some total' \<Rightarrow>
     (case elemAt parts (2 - i) of
        None \<Rightarrow> None
      | Some f2 \<Rightarrow>
     (case ParseUint f2 of
        None \<Rightarrow> Some None
      | Some used' \<Rightarrow>
     (case elemAt parts (3 - i) of
        None \<Rightarrow> None
      | Some f3 \<Rightarrow>
     (case ParseUint f3 of
        None \<Rightarrow> Some None
      | Some free' \<Rightarrow>
     (case elemAt parts (5 - i) of
        None \<Rightarrow> None
      | Some mp \<Rightarrow>
          Some (Some \<lparr>MountPoint = mp, FSInfo.Total = total', Used = used', FSInfo.Free = free'\<rparr>))))))))"

text \<open>The test \<open>dev\<close> of the loop body: the line has a first field and it begins with
  \<open>/dev/\<close>.\<close>

definition isDev :: "string list \<Rightarrow> bool" where
  "isDev parts = (length parts > 0 \<and> Index (parts ! 0) ''/dev/'' = 0)"

text \<open>The loop over the lines, with the variables \<open>flag\<close> and \<open>res\<close>.\<close>

fun scanFS :: "int \<Rightarrow> FSInfo list \<Rightarrow> string list \<Rightarrow> FSInfo list option" where
  "scanFS flag res [] = Some res"
| "scanFS flag res (line # rest) =
     (let parts = Fields line;
          n = length parts;
          dev = isDev parts
      in if n = 1 \<and> dev then scanFS 1 res rest
         else (case parseRow flag parts of
                 None \<Rightarrow> None
               | Some None \<Rightarrow> scanFS 0 res rest
               | Some (Some fs) \<Rightarrow> scanFS 0 (res @ [fs]) rest))"

definition GetFSInfos :: "(string \<Rightarrow> error + string) \<Rightarrow> FSInfo list outcome" where
  "GetFSInfos exec =
     (let parse = (\<lambda>lines. case scanFS 0 [] (ScanLines lines) of
                              None \<Rightarrow> None
                            | Some res \<Rightarrow> Some (res, None))
      in case exec ''/bin/df -B1'' of
           Inr lines \<Rightarrow> parse lines
         | Inl _ \<Rightarrow>
             (case exec ''/bin/df'' of
                Inr lines \<Rightarrow> parse lines
              | Inl err \<Rightarrow> Some ([], Some (Errorf ''execute /bin/df'' err))))"

subsection \<open>\<open>GetCPU\<close> and \<open>parseCPUFields\<close>\<close>

definition zeroCPURaw :: CPURaw where
  "zeroCPURaw = \<lparr>CPURaw.User = 0, Nice = 0, System = 0, Idle = 0, Iowait = 0, Irq = 0,
                  SoftIrq = 0, Steal = 0, Guest = 0, Total = 0\<rparr>"

text \<open>The \<open>switch i\<close> of \<open>parseCPUFields\<close>.\<close>

definition setCounter :: "int \<Rightarrow> 64 word \<Rightarrow> CPURaw \<Rightarrow> CPURaw" where
  "setCounter i val cpu =
     (if i = 1 then cpu\<lparr>CPURaw.User := val\<rparr>
      else if i = 2 then cpu\<lparr>CPURaw.Nice := val\<rparr>
      else if i = 3 then cpu\<lparr>CPURaw.System := val\<rparr>
      else if i = 4 then cpu\<lparr>CPURaw.Idle := val\<rparr>
      else if i = 5 then cpu\<lparr>Iowait := val\<rparr>
      else if i = 6 then cpu\<lparr>Irq := val\<rparr>
      else if i = 7 then cpu\<lparr>SoftIrq := val\<rparr>
      else if i = 8 then cpu\<lparr>CPURaw.Steal := val\<rparr>
      else if i = 9 then cpu\<lparr>CPURaw.Guest := val\<rparr>
      else cpu)"

text \<open>The loop \<open>for i := 1; i < numFields; i++\<close>, at index \<open>i\<close> with the fields from
  there on.\<close>

fun parseCPUFieldsFrom :: "int \<Rightarrow> CPURaw \<Rightarrow> string list \<Rightarrow> CPURaw" where
  "parseCPUFieldsFrom i cpu [] = cpu"
| "parseCPUFieldsFrom i cpu (f # fs) =
     (case ParseUint f of
        None \<Rightarrow> parseCPUFieldsFrom (i + 1) cpu fs
      | Some val \<Rightarrow>
          parseCPUFieldsFrom (i + 1)
            (setCounter i val (cpu\<lparr>CPURaw.Total := CPURaw.Total cpu + val\<rparr>)) fs)"

definition parseCPUFields :: "CPURaw \<Rightarrow> string list \<Rightarrow> CPURaw" where
  "parseCPUFields cpu fields' = parseCPUFieldsFrom 1 cpu (drop 1 fields')"

text \<open>The scanner loop of \<open>GetCPU\<close>: the first line whose first field is \<open>cpu\<close> is
  parsed into the zero-initialised \<open>nowCPU\<close>, and the loop breaks.\<close>

fun scanCPU :: "string list \<Rightarrow> CPURaw" where
  "scanCPU [] = zeroCPURaw"
| "scanCPU (line # rest) =
     (let fields' = Fields line in
      if length fields' > 0 \<and> fields' ! 0 = ''cpu'' then parseCPUFields zeroCPURaw fields'
      else scanCPU rest)"

definition percent :: "64 word \<Rightarrow> float32 \<Rightarrow> float32" where
  "percent x total' = fmul (fdiv (float32_of_uint64 x) total') (Finite 100)"

definition zeroCPUInfo :: CPUInfo where
  "zeroCPUInfo = \<lparr>CPUInfo.User = Finite 0, Nice = Finite 0, System = Finite 0, Idle = Finite 0,
                   IOWait = Finite 0, IRQ = Finite 0, SoftIRQ = Finite 0, Steal = Finite 0,
                   Guest = Finite 0\<rparr>"

definition GetCPU :: "(string \<Rightarrow> error + string) \<Rightarrow> CPUInfo outcome" where
  "GetCPU exec =
     (case exec ''/bin/cat /proc/stat'' of
        Inl err \<Rightarrow> Some (zeroCPUInfo, Some (Errorf ''execute /bin/cat /proc/stat'' err))
      | Inr lines \<Rightarrow>
          (let nowCPU = scanCPU (ScanLines lines);
               total' = float32_of_uint64 (CPURaw.Total nowCPU)
           in Some (\<lparr>CPUInfo.User = percent (CPURaw.User nowCPU) total',
                     Nice = percent (CPURaw.Nice nowCPU) total',
                     System = percent (CPURaw.System nowCPU) total',
                     Idle = percent (CPURaw.Idle nowCPU) total',
                     IOWait = percent (Iowait nowCPU) total',
                     IRQ = percent (Irq nowCPU) total',
                     SoftIRQ = percent (SoftIrq nowCPU) total',
                     Steal = percent (CPURaw.Steal nowCPU) total',
                     Guest = percent (CPURaw.Guest nowCPU) total'\<rparr>, None)))"

subsection \<open>\<open>GetStats\<close>\<close>

text \<open>
  \<open>GetStats\<close> starts the eight probes as tasks of a \<open>semgroup\<close> group, waits for all
  of them and builds the snapshot from the variables they assigned. Each task writes one
  variable of its own and \<open>Wait\<close> returns only when every task has finished, so the
  snapshot is determined by what each probe call returned; the client is modelled by
  these eight results. A probe that panics takes the process down, so \<open>GetStats\<close> then
  does not return. \<open>Wait\<close> returns nil when no task failed and otherwise one error that
  holds the errors of the failed tasks (in an order that depends on the scheduling; the
  model lists them in program order). The bound on the number of tasks in flight (the
  workers, a positive number) delays tasks and does not change what they compute; a
  failed task does not cancel the others.
\<close>

record ProbeResults =
  rUptime :: "int outcome"
  rHostname :: "string outcome"
  rLoad :: "Loads outcome"
  rMemInfo :: "MemInfo outcome"
  rFSInfos :: "FSInfo list outcome"
  rNetIPAddrs :: "(string \<times> NetIPAddr) list outcome"
  rNetDevInfos :: "(string \<times> NetDevInfo) list outcome"
  rCPU :: "CPUInfo outcome"

fun errorsOf :: "error option list \<Rightarrow> error list" where
  "errorsOf [] = []"
| "errorsOf (None # rs) = errorsOf rs"
| "errorsOf (Some e # rs) = e # errorsOf rs"

definition Wait :: "error option list \<Rightarrow> error option" where
  "Wait rs = (if errorsOf rs = [] then None else Some (MultiError (errorsOf rs)))"

definition GetStats :: "ProbeResults \<Rightarrow> Stats outcome" where
  "GetStats c =
     do {
       (uptime, e1) \<leftarrow> rUptime c;
       (hostname, e2) \<leftarrow> rHostname c;
       (loads, e3) \<leftarrow> rLoad c;
       (mem, e4) \<leftarrow> rMemInfo c;
       (fsInfos, e5) \<leftarrow> rFSInfos c;
       (netIpAddrs, e6) \<leftarrow> rNetIPAddrs c;
       (netDevInfos, e7) \<leftarrow> rNetDevInfos c;
       (cpu, e8) \<leftarrow> rCPU c;
       let err = Wait [e1, e2, e3, e4, e5, e6, e7, e8];
       let netInterface = MergeNetInterfaces netIpAddrs netDevInfos;
       Some (\<lparr>Uptime = uptime, Hostname = hostname, Loads = loads, CPU = cpu, MEM = mem,
               FSInfos = fsInfos, NetInterface = netInterface\<rparr>, err)
     }"

section \<open>Package ssh\<close>

subsection \<open>Host alias resolution\<close>

record Section =
  Hostname :: string
  Port :: int
  User :: string
  IdentityFile :: string

definition getFull :: "Section \<Rightarrow> string \<Rightarrow> Section \<Rightarrow> string \<times> int \<times> string \<times> string" where
  "getFull s name def =
     (let host = (if length (Section.Hostname s) > 0 then Section.Hostname s
                  else if length (Section.Hostname def) > 0 then Section.Hostname def
                  else '''');
          port = (if Port s > 0 then Port s else if Port def > 0 then Port def else 0);
          user = (if length (Section.User s) > 0 then Section.User s
                  else if length (Section.User def) > 0 then Section.User def
                  else '''');
          keyfile = (if length (IdentityFile s) > 0 then IdentityFile s
                     else if length (IdentityFile def) > 0 then IdentityFile def
                     else '''')
      in (host, port, user, keyfile))"

text \<open>
  The loop \<open>for h, s := range HostInfo\<close> of \<open>GetSshEntry\<close>: the first section, in
  the order the map is visited, whose pattern matches the name. \<open>Match\<close> stands for
  \<open>path.Match\<close> of the Go library, which returns whether the name matches the pattern
  and an error for a malformed pattern; it is a parameter here.
\<close>

fun rangeMatch ::
  "(string \<Rightarrow> string \<Rightarrow> bool \<times> error option) \<Rightarrow> (string \<times> Section) list \<Rightarrow> string \<Rightarrow> Section option" where
  "rangeMatch Match [] name = None"
| "rangeMatch Match ((h, s) # rest) name =
     (case Match h name of
        (ok, err) \<Rightarrow> if ok \<and> err = None then Some s else rangeMatch Match rest name)"

text \<open>\<open>GetSshEntry\<close>; the package variable \<open>HostInfo\<close> is passed as an argument.\<close>

definition GetSshEntry ::
  "(string \<Rightarrow> string \<Rightarrow> bool \<times> error option) \<Rightarrow> (string \<times> Section) list \<Rightarrow> string
     \<Rightarrow> string \<times> int \<times> string \<times> string" where
  "GetSshEntry Match HostInfo name =
     (let def = (case map_of HostInfo ''*'' of
                   Some defcfg \<Rightarrow> defcfg
                 | None \<Rightarrow> \<lparr>Hostname = name, Port = 0, User = '''', IdentityFile = ''''\<rparr>)
      in case map_of HostInfo name of
           Some s \<Rightarrow> getFull s name def
         | None \<Rightarrow>
             (case rangeMatch Match HostInfo name of
                Some s \<Rightarrow> getFull s name def
              | None \<Rightarrow> (Section.Hostname def, Port def, Section.User def, IdentityFile def)))"

subsection \<open>Establishing the connection\<close>

text \<open>
  What \<open>NewClient\<close> finds outside the program: the agent socket named by the
  environment and whether it can be dialled, whether standard input is a terminal, what
  reading the key file gives, and what connecting to the server and the SSH handshake
  give for a user, an address and a list of authentication methods (\<open>Handshake\<close>: the
  connection, or the error when the server cannot be reached or accepts none of the
  methods).

  \<open>Dial\<close> is \<open>ssh.Dial\<close> of \<open>golang.org/x/crypto/ssh\<close> on a client configuration,
  of which the user, the authentication methods and the host-key callback matter here.
  The library refuses a configuration whose \<open>HostKeyCallback\<close> is not set, with the
  error \<open>ssh: must specify HostKeyCallback\<close>, before any handshake takes place; with a
  callback that accepts every host key the result is that of the handshake.
  \<open>tryAgentConnect\<close> builds a configuration that sets no host-key callback (and drops
  the error of the dial); \<open>NewClient\<close> itself sets one that accepts every host key.
\<close>

datatype auth = AgentAuth string | PublicKeys string | PasswordCallback

datatype hostKeyCallback = Unset | AcceptAny

datatype keyfile = Unreadable | NoPemBlock | Unusable | Signer

record 'c sshEnv =
  SSH_AUTH_SOCK :: string
  DialUnix :: "string \<Rightarrow> bool"
  IsTerminal :: bool
  KeyFile :: "string \<Rightarrow> keyfile"
  Handshake :: "string \<Rightarrow> string \<times> int \<Rightarrow> auth list \<Rightarrow> error + 'c"

record 'c Client =
  client :: 'c

definition Dial ::
  "'c sshEnv \<Rightarrow> string \<Rightarrow> string \<times> int \<Rightarrow> auth list \<Rightarrow> hostKeyCallback \<Rightarrow> error + 'c" where
  "Dial env user addr auths callback =
     (case callback of
        Unset \<Rightarrow> Inl (RemoteError ''ssh: must specify HostKeyCallback'')
      | AcceptAny \<Rightarrow> Handshake env user addr auths)"

definition getAgentAuth :: "'c sshEnv \<Rightarrow> auth option" where
  "getAgentAuth env =
     (let sock = SSH_AUTH_SOCK env in
      if length sock > 0 \<and> DialUnix env sock then Some (AgentAuth sock) else None)"

definition tryAgentConnect :: "'c sshEnv \<Rightarrow> string \<Rightarrow> string \<times> int \<Rightarrow> 'c option" where
  "tryAgentConnect env user addr =
     (case getAgentAuth env of
        Some a \<Rightarrow> (case Dial env user addr [a] Unset of Inr c \<Rightarrow> Some c | Inl _ \<Rightarrow> None)
      | None \<Rightarrow> None)"

text \<open>\<open>addKeyAuth\<close>: an unreadable key file ends the process (\<open>os.Exit(1)\<close>), here
  \<open>None\<close>; a file without a usable key adds nothing.\<close>

definition addKeyAuth :: "'c sshEnv \<Rightarrow> auth list \<Rightarrow> string \<Rightarrow> auth list option" where
  "addKeyAuth env auths keypath =
     (if length keypath = 0 then Some auths
      else (case KeyFile env keypath of
              Unreadable \<Rightarrow> None
            | NoPemBlock \<Rightarrow> Some auths
            | Unusable \<Rightarrow> Some auths
            | Signer \<Rightarrow> Some (auths @ [PublicKeys keypath])))"

definition addPasswordAuth :: "'c sshEnv \<Rightarrow> auth list \<Rightarrow> auth list" where
  "addPasswordAuth env auths = (if \<not> IsTerminal env then auths else auths @ [PasswordCallback])"

text \<open>\<open>NewClient\<close> returns a pointer to a \<open>Client\<close> (possibly nil, \<open>None\<close>) and an
  error. The address \<open>host:port\<close> that it formats is kept as the pair of host and
  port.\<close>

definition NewClient ::
  "'c sshEnv \<Rightarrow> string \<Rightarrow> string \<Rightarrow> int \<Rightarrow> string \<Rightarrow> 'c option \<Rightarrow> 'c Client option outcome" where
  "NewClient env user host port keypath provided =
     (case provided of
        Some c \<Rightarrow> Some (Some \<lparr>client = c\<rparr>, None)
      | None \<Rightarrow>
          (let addr = (host, if port = 0 then 22 else port) in
           case tryAgentConnect env user addr of
             Some sshClient \<Rightarrow> Some (None, None)
           | None \<Rightarrow>
               (case addKeyAuth env [] keypath of
                  None \<Rightarrow> None
                | Some auths \<Rightarrow>
                    (case Dial env user addr (addPasswordAuth env auths) AcceptAny of
                       Inl err \<Rightarrow> Some (None, Some err)
                     | Inr sshClient \<Rightarrow> Some (Some \<lparr>client = sshClient\<rparr>, None)))))"

text \<open>\<open>Client.Execute\<close>: \<open>run\<close> opens a session on the connection, runs the command
  and captures its standard output. Calling the method on a nil \<open>*Client\<close> dereferences
  nil, a run-time panic.\<close>

definition Execute ::
  "('c \<Rightarrow> string \<Rightarrow> error + string) \<Rightarrow> 'c Client option \<Rightarrow> string \<Rightarrow> string outcome" where
  "Execute run c command =
     (case c of
        None \<Rightarrow> None
      | Some cl \<Rightarrow>
          (case run (client cl) command of
             Inl err \<Rightarrow> Some ('''', Some err)
           | Inr out \<Rightarrow> Some (out, None)))"

section \<open>Package cmd: the command line\<close>

text \<open>\<open>parseAddrAsUserHostAddrPort\<close> parses the positional argument into user name,
  host and port.\<close>

definition parseAddrAsUserHostAddrPort :: "string \<Rightarrow> (string \<times> string \<times> int) outcome" where
  "parseAddrAsUserHostAddrPort flagHost =
     (let i = Index flagHost ''@'';
          user = (if i \<noteq> -1 then take (nat i) flagHost else '''');
          host = (if i \<noteq> -1 then drop (nat (i + 1)) flagHost else '''');
          p = SplitByte host (CHR '':'')
      in if length p = 2 then
           (case Atoi (p ! 1) of
              None \<Rightarrow> Some (('''', '''', 0), Some (BadPort (p ! 1)))
            | Some port \<Rightarrow>
                if port \<le> 0 \<or> port \<ge> 65536
                then Some (('''', '''', 0), Some (PortOutOfRange port))
                else Some ((user, p ! 0, port), None))
         else Some ((user, host, 0), None))"

section \<open>Notions used in the statements and proofs\<close>

text \<open>The nine named counters of a \<open>CPURaw\<close>, in the order of the fields of the
  \<open>cpu\<close> line, and the invariant of the loop of \<open>parseCPUFields\<close>: the counters from
  position \<open>i\<close> on are still zero.\<close>

definition counters :: "CPURaw \<Rightarrow> 64 word list" where
  "counters cpu = [CPURaw.User cpu, CPURaw.Nice cpu, CPURaw.System cpu, CPURaw.Idle cpu,
     Iowait cpu, Irq cpu, SoftIrq cpu, CPURaw.Steal cpu, CPURaw.Guest cpu]"

definition zeroFrom :: "int \<Rightarrow> CPURaw \<Rightarrow> bool" where
  "zeroFrom i cpu = list_all (\<lambda>x. x = 0) (drop (nat (i - 1)) (counters cpu))"

text \<open>
  \<open>path.Match\<close> on the patterns the examples use: ordinary characters, optionally
  followed by one final \<open>*\<close>. The prefix must be matched literally and the star matches
  any run of characters other than the slash; a pattern without a star matches itself
  only. No pattern is malformed in this fragment, so the error is nil.
\<close>

definition MatchPrefixStar :: "string \<Rightarrow> string \<Rightarrow> bool \<times> error option" where
  "MatchPrefixStar pattern name =
     (if pattern \<noteq> [] \<and> last pattern = CHR ''*''
      then (HasPrefix name (butlast pattern) \<and>
            CHR ''/'' \<notin> set (drop (length (butlast pattern)) name), None)
      else (pattern = name, None))"

text \<open>
  Rows of a table as the remote tools print them: words of visible ASCII characters
  separated by single blanks.
\<close>

definition plainByte :: "char \<Rightarrow> bool" where
  "plainByte c = (33 \<le> (of_char c :: nat) \<and> (of_char c :: nat) \<le> 126)"

definition visibleWord :: "string \<Rightarrow> bool" where
  "visibleWord w = (w \<noteq> [] \<and> list_all plainByte w)"

fun row :: "string list \<Rightarrow> string" where
  "row [] = []"
| "row [w] = w"
| "row (w # v # ws) = w @ CHR '' '' # row (v # ws)"

text \<open>An alias table with a glob section, an exact section and the default section.\<close>

definition exampleHostInfo :: "(string \<times> Section) list" where
  "exampleHostInfo =
     [(''web-*'', \<lparr>Hostname = ''web.example.com'', Port = 0, User = '''', IdentityFile = ''''\<rparr>),
      (''web-1'', \<lparr>Hostname = ''10.0.0.1'', Port = 0, User = ''admin'', IdentityFile = ''''\<rparr>),
      (''*'', \<lparr>Hostname = '''', Port = 2222, User = ''root'',
               IdentityFile = ''~/.ssh/id_ed25519''\<rparr>)]"

text \<open>The results of the eight probes of one harvest in which every probe succeeds.\<close>

definition exampleProbes :: ProbeResults where
  "exampleProbes =
     \<lparr>rUptime = Some (12345000000000, None),
      rHostname = Some (''db1.example.com'', None),
      rLoad = Some (\<lparr>Load1 = ''0.10'', Load5 = ''0.20'', Load15 = ''0.30'',
                      RunningProcs = ''2'', TotalProcs = ''150''\<rparr>, None),
      rMemInfo = Some (\<lparr>MemInfo.Total = 2097152, Free = 524288, Buffers = 65536,
                         Cached = 131072, SwapTotal = 0, SwapFree = 0\<rparr>, None),
      rFSInfos = Some ([\<lparr>MountPoint = ''/'', FSInfo.Total = 1000, Used = 200,
                          FSInfo.Free = 800\<rparr>], None),
      rNetIPAddrs = Some ([(''eth0'', \<lparr>IPv4 = ''10.0.0.5/24'', IPv6 = ''''\<rparr>)], None),
      rNetDevInfos = Some ([(''eth0'', \<lparr>Rx = 4096, Tx = 1024\<rparr>)], None),
      rCPU = Some (\<lparr>CPUInfo.User = Finite 25, Nice = Finite 0, System = Finite 25,
                     Idle = Finite 50, IOWait = Finite 0, IRQ = Finite 0, SoftIRQ = Finite 0,
                     Steal = Finite 0, Guest = Finite 0\<rparr>, None)\<rparr>"

text \<open>An environment in which an agent is advertised and can be reached, the server
  accepts the agent's keys (a handshake that offers them gives the connection \<open>c\<close>)
  and refuses every other method, and standard input is not a terminal.\<close>

definition agentEnv :: "'c \<Rightarrow> 'c sshEnv" where
  "agentEnv c =
     \<lparr>SSH_AUTH_SOCK = ''/tmp/ssh-agent.sock'',
      DialUnix = (\<lambda>sock. sock = ''/tmp/ssh-agent.sock''),
      IsTerminal = False,
      KeyFile = (\<lambda>path. NoPemBlock),
      Handshake = (\<lambda>user addr auths.
                if AgentAuth ''/tmp/ssh-agent.sock'' \<in> set auths then Inr c
                else Inl (RemoteError ''ssh: unable to authenticate''))\<rparr>"

section \<open>Properties\<close>

subsection \<open>The target argument of the command line\<close>

lemma Index_no_byte:
  "c \<notin> set s \<Longrightarrow> Index s [c] = -1"
  by (induction s) auto

text \<open>
  Claim C10 says that an argument without a user part, \<open>host\<close> or \<open>host:port\<close>, is
  parsed to that host (and port) with an empty user. The function sets \<open>host\<close> only
  inside the branch taken when an \<open>@\<close> is found, so for every argument without \<open>@\<close>
  it returns the empty host, port 0 and no error, whatever the argument was.
\<close>

theorem parseAddr_without_user_loses_host:
  "CHR ''@'' \<notin> set flagHost \<Longrightarrow>
     parseAddrAsUserHostAddrPort flagHost = Some (('''', '''', 0), None)"
  by (simp add: parseAddrAsUserHostAddrPort_def Index_no_byte)

theorem parseAddr_without_user_witness:
  "CHR ''@'' \<notin> set ''example.com:2222'' \<and>
   parseAddrAsUserHostAddrPort ''example.com:2222'' = Some (('''', '''', 0), None)"
  using parseAddr_without_user_loses_host [of "''example.com:2222''"] by simp

subsection \<open>Merging the network tables\<close>

lemma keys_foldl: "foldl (\<lambda>keys (k, _). keys @ [k]) acc addr = acc @ map fst addr"
  by (induction addr arbitrary: acc) auto

lemma map_of_merge_loop:
  "map_of (foldl (\<lambda>merged k.
               case map_of dev k of
                 Some d \<Rightarrow> AList.update k \<lparr>NetIPAddr = addrAt addr k, NetDevInfo = d\<rparr> merged
               | None \<Rightarrow> merged) acc ks) k =
   (if k \<in> set ks then
      (case map_of dev k of
         Some d \<Rightarrow> Some \<lparr>NetIPAddr = addrAt addr k, NetDevInfo = d\<rparr>
       | None \<Rightarrow> map_of acc k)
    else map_of acc k)"
  by (induction ks arbitrary: acc) (auto simp: update_conv' split: option.splits)

lemma distinct_merge_loop:
  "distinct (map fst acc) \<Longrightarrow>
   distinct (map fst (foldl (\<lambda>merged k.
               case map_of dev k of
                 Some d \<Rightarrow> AList.update k \<lparr>NetIPAddr = addrAt addr k, NetDevInfo = d\<rparr> merged
               | None \<Rightarrow> merged) acc ks))"
  by (induction ks arbitrary: acc) (auto simp: distinct_update split: option.splits)

lemma map_of_MergeNetInterfaces:
  "map_of (MergeNetInterfaces addr dev) k =
     (case map_of addr k of
        None \<Rightarrow> None
      | Some a \<Rightarrow> (case map_of dev k of
                    None \<Rightarrow> None
                  | Some d \<Rightarrow> Some \<lparr>NetIPAddr = a, NetDevInfo = d\<rparr>))"
proof (cases "map_of addr k")
  case None
  then have "k \<notin> set (map fst addr)" by (simp add: map_of_eq_None_iff)
  then show ?thesis using None
    by (simp add: MergeNetInterfaces_def keys_foldl map_of_merge_loop)
next
  case (Some a)
  then have "k \<in> set (map fst addr)" using map_of_eq_None_iff [of addr k] by auto
  then show ?thesis using Some
    by (simp add: MergeNetInterfaces_def keys_foldl map_of_merge_loop addrAt_def
        split: option.splits)
qed

lemma keys_MergeNetInterfaces:
  "fst ` set (MergeNetInterfaces addr dev) = fst ` set addr \<inter> fst ` set dev"
proof -
  have "dom (map_of (MergeNetInterfaces addr dev)) = dom (map_of addr) \<inter> dom (map_of dev)"
    by (auto simp: map_of_MergeNetInterfaces dom_def split: option.splits)
  then show ?thesis by (simp add: dom_map_of_conv_image_fst)
qed

lemma MergeNetInterfaces_nil: "MergeNetInterfaces [] dev = []" "MergeNetInterfaces addr [] = []"
proof -
  show "MergeNetInterfaces [] dev = []" by (simp add: MergeNetInterfaces_def)
  have "fst ` set (MergeNetInterfaces addr []) = {}" by (simp add: keys_MergeNetInterfaces)
  then show "MergeNetInterfaces addr [] = []" by simp
qed

text \<open>
  Claim C1 says that the key set of \<open>MergeNetInterfaces(A, D)\<close> is exactly the key set
  of \<open>A\<close>. The function stores an entry only under the guard \<open>if d, ok := dev[k]; ok\<close>,
  so an interface of \<open>A\<close> that \<open>D\<close> does not have is left out: the loopback interface
  has counters below, \<open>eth0\<close> has an address only and is missing from the result.
\<close>

theorem MergeNetInterfaces_omits_interface_without_counters:
  "MergeNetInterfaces
     [(''lo'', \<lparr>IPv4 = ''127.0.0.1/8'', IPv6 = ''::1/128''\<rparr>),
      (''eth0'', \<lparr>IPv4 = ''10.0.0.5/24'', IPv6 = ''''\<rparr>)]
     [(''lo'', \<lparr>Rx = 4096, Tx = 4096\<rparr>)]
   = [(''lo'', \<lparr>NetIPAddr = \<lparr>IPv4 = ''127.0.0.1/8'', IPv6 = ''::1/128''\<rparr>,
               NetDevInfo = \<lparr>Rx = 4096, Tx = 4096\<rparr>\<rparr>)] \<and>
   fst ` set (MergeNetInterfaces
     [(''lo'', \<lparr>IPv4 = ''127.0.0.1/8'', IPv6 = ''::1/128''\<rparr>),
      (''eth0'', \<lparr>IPv4 = ''10.0.0.5/24'', IPv6 = ''''\<rparr>)]
     [(''lo'', \<lparr>Rx = 4096, Tx = 4096\<rparr>)])
   \<noteq> fst ` set [(''lo'', \<lparr>IPv4 = ''127.0.0.1/8'', IPv6 = ''::1/128''\<rparr>),
                 (''eth0'', \<lparr>IPv4 = ''10.0.0.5/24'', IPv6 = ''''\<rparr>)]"
  by (simp add: MergeNetInterfaces_def addrAt_def)

text \<open>
  Claim C1, amended: for every address table \<open>A\<close> and device table \<open>D\<close> the result
  is a map whose key set is the intersection of the key sets of \<open>A\<close> and \<open>D\<close>. An
  interface present in both appears with the address entry of \<open>A\<close> and the counters of
  \<open>D\<close>; an interface of \<open>A\<close> without counters in \<open>D\<close> is omitted; an interface of
  \<open>D\<close> that is not in \<open>A\<close> never appears.
\<close>

theorem MergeNetInterfaces_inner_join:
  "fst ` set (MergeNetInterfaces addr dev) = fst ` set addr \<inter> fst ` set dev \<and>
   distinct (map fst (MergeNetInterfaces addr dev)) \<and>
   map_of (MergeNetInterfaces addr dev) k =
     (case map_of addr k of
        None \<Rightarrow> None
      | Some a \<Rightarrow> (case map_of dev k of
                    None \<Rightarrow> None
                  | Some d \<Rightarrow> Some \<lparr>NetIPAddr = a, NetDevInfo = d\<rparr>))"
proof -
  have "distinct (map fst (MergeNetInterfaces addr dev))"
    unfolding MergeNetInterfaces_def Let_def by (rule distinct_merge_loop) simp
  then show ?thesis
    using keys_MergeNetInterfaces [of addr dev] map_of_MergeNetInterfaces [of addr dev k]
    by simp
qed

subsection \<open>Used memory\<close>

lemma MemInfo_Used_mod:
  "uint (MemInfo_Used m) =
     (uint (MemInfo.Total m) - uint (MemInfo.Free m) - uint (Buffers m) - uint (Cached m))
       mod 2 ^ 64"
  by (simp add: MemInfo_Used_def uint_word_ariths mod_diff_left_eq)

lemma MemInfo_Used_exact:
  assumes "uint (MemInfo.Free m) + uint (Buffers m) + uint (Cached m) \<le> uint (MemInfo.Total m)"
  shows "uint (MemInfo_Used m) =
           uint (MemInfo.Total m) - uint (MemInfo.Free m) - uint (Buffers m) - uint (Cached m)"
proof -
  define d where
    "d = uint (MemInfo.Total m) - uint (MemInfo.Free m) - uint (Buffers m) - uint (Cached m)"
  have "uint (MemInfo.Total m) < 2 ^ 64" using uint_lt2p [of "MemInfo.Total m"] by simp
  moreover have "0 \<le> uint (MemInfo.Free m)" "0 \<le> uint (Buffers m)" "0 \<le> uint (Cached m)"
    by simp_all
  ultimately have "0 \<le> d" "d < 2 ^ 64" using assms unfolding d_def by linarith+
  then have "d mod 2 ^ 64 = d" by simp
  then show ?thesis using MemInfo_Used_mod [of m] by (simp add: d_def)
qed

text \<open>For a consistent memory table the method gives the exact difference.\<close>

lemma GetMemInfo_example:
  "GetMemInfo (\<lambda>cmd. Inr ''MemTotal: 2048 kB\<newline>MemFree: 512 kB\<newline>Buffers: 64 kB\<newline>Cached: 128 kB\<newline>'')
   = Some (\<lparr>MemInfo.Total = 2097152, Free = 524288, Buffers = 65536, Cached = 131072,
             SwapTotal = 0, SwapFree = 0\<rparr>, None) \<and>
   MemInfo_Used \<lparr>MemInfo.Total = 2097152, Free = 524288, Buffers = 65536, Cached = 131072,
                 SwapTotal = 0, SwapFree = 0\<rparr> = 1376256"
  by (simp add: GetMemInfo_def ScanLines_def dropCR_def Fields_def asciiSpace_def ParseUint_def
      isDigit_def decimal_def setMem_def zeroMemInfo_def MemInfo_Used_def)

text \<open>
  Claim C7 says that \<open>Used()\<close> is \<open>Total - Free - Buffers - Cached\<close> in signed or
  zero-saturating arithmetic and must not wrap around when \<open>Free + Buffers + Cached\<close>
  exceeds \<open>Total\<close>. The method subtracts in \<open>uint64\<close>. For a memory table that reports
  free memory but no total, \<open>GetMemInfo\<close> yields \<open>Total = 0\<close> and \<open>Free = 1024\<close>, and
  \<open>Used()\<close> is \<open>2^64 - 1024\<close>: neither the exact difference \<open>-1024\<close> nor \<open>0\<close>.
\<close>

theorem MemInfo_Used_wraps_around:
  "GetMemInfo (\<lambda>cmd. Inr ''MemFree: 1 kB\<newline>'') =
     Some (\<lparr>MemInfo.Total = 0, Free = 1024, Buffers = 0, Cached = 0,
             SwapTotal = 0, SwapFree = 0\<rparr>, None) \<and>
   uint (MemInfo_Used \<lparr>MemInfo.Total = 0, Free = 1024, Buffers = 0, Cached = 0,
                        SwapTotal = 0, SwapFree = 0\<rparr>) = 18446744073709550592"
  by (simp add: GetMemInfo_def ScanLines_def dropCR_def Fields_def asciiSpace_def ParseUint_def
      isDigit_def decimal_def setMem_def zeroMemInfo_def MemInfo_Used_def)

subsection \<open>The total of the CPU counters\<close>

lemma Total_setCounter: "CPURaw.Total (setCounter i val cpu) = CPURaw.Total cpu"
  by (simp add: setCounter_def)

lemma Total_parseCPUFieldsFrom:
  "CPURaw.Total (parseCPUFieldsFrom i cpu fs) =
     CPURaw.Total cpu + sum_list (List.map_filter ParseUint fs)"
  by (induction fs arbitrary: i cpu)
     (auto simp: Total_setCounter List.map_filter_simps split: option.splits)

lemma parseCPUFields_step:
  assumes "1 \<le> i" "i \<le> 9" "zeroFrom i cpu" "CPURaw.Total cpu = sum_list (counters cpu)"
  shows "zeroFrom (i + 1) (setCounter i val (cpu\<lparr>CPURaw.Total := CPURaw.Total cpu + val\<rparr>)) \<and>
         CPURaw.Total (setCounter i val (cpu\<lparr>CPURaw.Total := CPURaw.Total cpu + val\<rparr>)) =
         sum_list (counters (setCounter i val (cpu\<lparr>CPURaw.Total := CPURaw.Total cpu + val\<rparr>)))"
proof -
  from assms(1,2) have "i \<in> {1, 2, 3, 4, 5, 6, 7, 8, 9}" by auto
  then show ?thesis
    using assms(3,4)
    by (elim insertE emptyE) (simp_all add: zeroFrom_def counters_def setCounter_def)
qed

lemma zeroFrom_next: "1 \<le> i \<Longrightarrow> zeroFrom i cpu \<Longrightarrow> zeroFrom (i + 1) cpu"
proof -
  assume i: "1 \<le> i" and z: "zeroFrom i cpu"
  have "nat (i + 1 - 1) = Suc (nat (i - 1))" using i by simp
  then have "set (drop (nat (i + 1 - 1)) (counters cpu)) \<subseteq> set (drop (nat (i - 1)) (counters cpu))"
    by (simp add: set_drop_subset_set_drop)
  then show ?thesis using z by (auto simp: zeroFrom_def list_all_iff)
qed

lemma counters_parseCPUFieldsFrom:
  "1 \<le> i \<Longrightarrow> i + int (length fs) \<le> 10 \<Longrightarrow> zeroFrom i cpu \<Longrightarrow>
   CPURaw.Total cpu = sum_list (counters cpu) \<Longrightarrow>
     CPURaw.Total (parseCPUFieldsFrom i cpu fs) = sum_list (counters (parseCPUFieldsFrom i cpu fs))"
proof (induction fs arbitrary: i cpu)
  case Nil
  then show ?case by simp
next
  case (Cons f fs)
  have i9: "i \<le> 9" using Cons.prems(2) by simp
  show ?case
  proof (cases "ParseUint f")
    case None
    then show ?thesis
      using Cons.IH [of "i + 1" cpu] Cons.prems zeroFrom_next [of i cpu] by simp
  next
    case (Some val)
    let ?cpu = "setCounter i val (cpu\<lparr>CPURaw.Total := CPURaw.Total cpu + val\<rparr>)"
    have "zeroFrom (i + 1) ?cpu \<and> CPURaw.Total ?cpu = sum_list (counters ?cpu)"
      using parseCPUFields_step [OF Cons.prems(1) i9 Cons.prems(3,4)] .
    then show ?thesis
      using Cons.IH [of "i + 1" ?cpu] Cons.prems(1,2) Some by simp
  qed
qed

lemma Fields_cpu_line_ten:
  "Fields ''cpu  10 20 30 40 50 60 70 80 90 5'' =
     [''cpu'', ''10'', ''20'', ''30'', ''40'', ''50'', ''60'', ''70'', ''80'', ''90'', ''5'']"
  by (simp add: Fields_def asciiSpace_def)

lemma Fields_cpu_line_nine:
  "Fields ''cpu  10 20 30 40 50 60 70 80 90'' =
     [''cpu'', ''10'', ''20'', ''30'', ''40'', ''50'', ''60'', ''70'', ''80'', ''90'']"
  by (simp add: Fields_def asciiSpace_def)

lemma ParseUint_examples:
  "ParseUint ''10'' = Some 10" "ParseUint ''20'' = Some 20" "ParseUint ''30'' = Some 30"
  "ParseUint ''40'' = Some 40" "ParseUint ''50'' = Some 50" "ParseUint ''60'' = Some 60"
  "ParseUint ''70'' = Some 70" "ParseUint ''80'' = Some 80" "ParseUint ''90'' = Some 90"
  "ParseUint ''5'' = Some 5"
  by (simp_all add: ParseUint_def isDigit_def decimal_def)

text \<open>
  Claim C8 says that \<open>Total\<close> is the sum of exactly the nine named counters, also when the
  line carries further numeric fields. The loop adds every field that parses to
  \<open>Total\<close>, whatever its position: on a line with a tenth field (\<open>guest_nice\<close>, here 5)
  the nine counters sum to 450 and \<open>Total\<close> is 455.
\<close>

theorem parseCPUFields_total_includes_tenth_field:
  "parseCPUFields zeroCPURaw (Fields ''cpu  10 20 30 40 50 60 70 80 90 5'') =
     \<lparr>CPURaw.User = 10, Nice = 20, System = 30, Idle = 40, Iowait = 50, Irq = 60,
      SoftIrq = 70, Steal = 80, Guest = 90, Total = 455\<rparr> \<and>
   (455 :: 64 word) \<noteq> 10 + 20 + 30 + 40 + 50 + 60 + 70 + 80 + 90"
  by (simp add: Fields_cpu_line_ten ParseUint_examples parseCPUFields_def setCounter_def
      zeroCPURaw_def)

text \<open>
  Claim C8, amended: for the fields of the \<open>cpu\<close> line, \<open>Total\<close> is the sum, in
  \<open>uint64\<close>, of every field after the first that parses as an unsigned decimal number,
  trailing fields beyond the ninth included (the structure documents it as the total of
  all time fields). It is the sum of the nine named counters when the line has at most
  nine fields after \<open>cpu\<close>.
\<close>

theorem parseCPUFields_total:
  "CPURaw.Total (parseCPUFields zeroCPURaw fields') =
     sum_list (List.map_filter ParseUint (drop 1 fields')) \<and>
   (length fields' \<le> 10 \<longrightarrow>
      CPURaw.Total (parseCPUFields zeroCPURaw fields') =
        CPURaw.User (parseCPUFields zeroCPURaw fields') +
        CPURaw.Nice (parseCPUFields zeroCPURaw fields') +
        CPURaw.System (parseCPUFields zeroCPURaw fields') +
        CPURaw.Idle (parseCPUFields zeroCPURaw fields') +
        Iowait (parseCPUFields zeroCPURaw fields') +
        Irq (parseCPUFields zeroCPURaw fields') +
        SoftIrq (parseCPUFields zeroCPURaw fields') +
        CPURaw.Steal (parseCPUFields zeroCPURaw fields') +
        CPURaw.Guest (parseCPUFields zeroCPURaw fields'))"
proof -
  have z: "zeroFrom 1 zeroCPURaw" "CPURaw.Total zeroCPURaw = sum_list (counters zeroCPURaw)"
    by (simp_all add: zeroFrom_def counters_def zeroCPURaw_def)
  have t0: "CPURaw.Total zeroCPURaw = 0" by (simp add: zeroCPURaw_def)
  have a: "CPURaw.Total (parseCPUFields zeroCPURaw fields') =
     sum_list (List.map_filter ParseUint (drop 1 fields'))"
    by (simp add: parseCPUFields_def Total_parseCPUFieldsFrom t0)
  have b: "CPURaw.Total (parseCPUFields zeroCPURaw fields') =
      sum_list (counters (parseCPUFields zeroCPURaw fields'))" if "length fields' \<le> 10"
    unfolding parseCPUFields_def
    using counters_parseCPUFieldsFrom [of 1 "drop 1 fields'" zeroCPURaw] z that by simp
  show ?thesis using a b by (simp add: counters_def add.assoc)
qed

theorem parseCPUFields_total_witness:
  "length (Fields ''cpu  10 20 30 40 50 60 70 80 90'') \<le> 10 \<and>
   CPURaw.Total (parseCPUFields zeroCPURaw (Fields ''cpu  10 20 30 40 50 60 70 80 90'')) = 450 \<and>
   parseCPUFields zeroCPURaw (Fields ''cpu  10 20 30 40 50 60 70 80 90'') =
     \<lparr>CPURaw.User = 10, Nice = 20, System = 30, Idle = 40, Iowait = 50, Irq = 60,
      SoftIrq = 70, Steal = 80, Guest = 90, Total = 10 + 20 + 30 + 40 + 50 + 60 + 70 + 80 + 90\<rparr>"
proof -
  have r: "parseCPUFields zeroCPURaw (Fields ''cpu  10 20 30 40 50 60 70 80 90'') =
     \<lparr>CPURaw.User = 10, Nice = 20, System = 30, Idle = 40, Iowait = 50, Irq = 60,
      SoftIrq = 70, Steal = 80, Guest = 90, Total = 450\<rparr>"
    by (simp add: Fields_cpu_line_nine ParseUint_examples parseCPUFields_def setCounter_def
        zeroCPURaw_def)
  have l: "length (Fields ''cpu  10 20 30 40 50 60 70 80 90'') \<le> 10"
    by (simp add: Fields_cpu_line_nine)
  show ?thesis
    using parseCPUFields_total [of "Fields ''cpu  10 20 30 40 50 60 70 80 90''"] l r
    by simp
qed

subsection \<open>The two layouts of the filesystem table\<close>

lemma isDev_Cons: "isDev (d # cols) = (Index d ''/dev/'' = 0)"
  by (simp add: isDev_def)

lemma elemAt_Cons: "0 < k \<Longrightarrow> elemAt (x # xs) k = elemAt xs (k - 1)"
  by (auto simp: elemAt_def nat_diff_distrib')

lemma parseRow_shift: "parseRow 0 (d # cols) = parseRow 1 cols"
  by (simp add: parseRow_def elemAt_Cons cong: option.case_cong)

text \<open>One entry in both layouts, from the same state of the loop with \<open>flag = 0\<close>.\<close>

lemma scanFS_entry:
  assumes "Fields l = d # cols" "Fields l1 = [d]" "Fields l2 = cols"
      and "Index d ''/dev/'' = 0" "2 \<le> length cols"
  shows "scanFS 0 res (l # post) = scanFS 0 res (l1 # l2 # post)"
proof -
  have n: "length cols \<noteq> 1" "length cols \<noteq> 0" using assms(5) by auto
  show ?thesis using assms(1-4) n
    by (simp add: isDev_Cons parseRow_shift)
qed

lemma scanFS_tail0:
  assumes "\<And>r. scanFS 0 r ys = scanFS 0 r zs"
      and "\<not> (length (Fields x) = 1 \<and> isDev (Fields x))"
  shows "scanFS flag res (x # ys) = scanFS flag res (x # zs)"
  using assms by (auto simp: Let_def cong: option.case_cong)

lemma scanFS_tail:
  assumes "\<And>f r. scanFS f r ys = scanFS f r zs"
  shows "scanFS flag res (x # ys) = scanFS flag res (x # zs)"
  by (simp add: assms Let_def cong: option.case_cong)

text \<open>The same inside a table: the lines before the entry are arbitrary, except that the
  line just before it is not a device path on its own.\<close>

lemma scanFS_context:
  assumes "Fields l = d # cols" "Fields l1 = [d]" "Fields l2 = cols"
      and "Index d ''/dev/'' = 0" "2 \<le> length cols"
  shows "(pre = [] \<and> flag = 0) \<or>
         (pre \<noteq> [] \<and> \<not> (length (Fields (last pre)) = 1 \<and> isDev (Fields (last pre)))) \<Longrightarrow>
     scanFS flag res (pre @ l # post) = scanFS flag res (pre @ l1 # l2 # post)"
proof (induction pre arbitrary: flag res)
  case Nil
  then show ?case using scanFS_entry [OF assms] by simp
next
  case (Cons x xs)
  show ?case
  proof (cases "xs = []")
    case True
    with Cons.prems have nl: "\<not> (length (Fields x) = 1 \<and> isDev (Fields x))" by simp
    have e: "scanFS 0 r (l # post) = scanFS 0 r (l1 # l2 # post)" for r
      using scanFS_entry [OF assms] .
    show ?thesis unfolding True append_Cons append_Nil
      using e nl by (rule scanFS_tail0)
  next
    case False
    with Cons.prems
    have "xs \<noteq> [] \<and> \<not> (length (Fields (last xs)) = 1 \<and> isDev (Fields (last xs)))"
      by simp
    then have ih: "scanFS f r (xs @ l # post) = scanFS f r (xs @ l1 # l2 # post)" for f r
      using Cons.IH by blast
    show ?thesis unfolding append_Cons using ih by (rule scanFS_tail)
  qed
qed

text \<open>The result only grows: what the loop has collected stays at the front.\<close>

lemma scanFS_extends:
  "scanFS flag res ls = Some out \<Longrightarrow> \<exists>others. out = res @ others"
proof (induction ls arbitrary: flag res)
  case Nil
  then show ?case by simp
next
  case (Cons x xs)
  show ?case
  proof (cases "length (Fields x) = 1 \<and> isDev (Fields x)")
    case True
    with Cons.prems have "scanFS 1 res xs = Some out" by simp
    then show ?thesis by (rule Cons.IH)
  next
    case False
    show ?thesis
    proof (cases "parseRow flag (Fields x)")
      case None
      with False Cons.prems show ?thesis by (auto simp: Let_def)
    next
      case (Some r)
      show ?thesis
      proof (cases r)
        case None
        with Some False Cons.prems have "scanFS 0 res xs = Some out" by (auto simp: Let_def)
        then show ?thesis by (rule Cons.IH)
      next
        case (Some fs)
        with \<open>parseRow flag (Fields x) = Some r\<close> False Cons.prems
        have "scanFS 0 (res @ [fs]) xs = Some out" by (auto simp: Let_def)
        then obtain others where "out = (res @ [fs]) @ others" using Cons.IH by blast
        then show ?thesis by simp
      qed
    qed
  qed
qed

text \<open>The loop over a table split in two: after lines that do not end in a device path
  alone, the rest is scanned with \<open>flag = 0\<close> from what the first part collected.\<close>

lemma scanFS_one:
  "\<not> (length (Fields x) = 1 \<and> isDev (Fields x)) \<Longrightarrow>
     scanFS flag res (x # rest) =
       (case scanFS flag res [x] of None \<Rightarrow> None | Some r \<Rightarrow> scanFS 0 r rest)"
  by (auto simp: Let_def split: option.splits)

lemma scanFS_Cons_append:
  assumes "\<And>f r. scanFS f r (xs @ rest) =
             (case scanFS f r xs of None \<Rightarrow> None | Some r' \<Rightarrow> scanFS 0 r' rest)"
  shows "scanFS flag res (x # xs @ rest) =
           (case scanFS flag res (x # xs) of None \<Rightarrow> None | Some r' \<Rightarrow> scanFS 0 r' rest)"
  by (simp add: assms Let_def split: option.splits)

lemma scanFS_append:
  "(pre = [] \<and> flag = 0) \<or>
   (pre \<noteq> [] \<and> \<not> (length (Fields (last pre)) = 1 \<and> isDev (Fields (last pre)))) \<Longrightarrow>
     scanFS flag res (pre @ rest) =
       (case scanFS flag res pre of None \<Rightarrow> None | Some r \<Rightarrow> scanFS 0 r rest)"
proof (induction pre arbitrary: flag res)
  case Nil
  then show ?case by simp
next
  case (Cons x xs)
  show ?case
  proof (cases "xs = []")
    case True
    with Cons.prems have "\<not> (length (Fields x) = 1 \<and> isDev (Fields x))" by simp
    then show ?thesis unfolding True append_Cons append_Nil by (rule scanFS_one)
  next
    case False
    with Cons.prems
    have "xs \<noteq> [] \<and> \<not> (length (Fields (last xs)) = 1 \<and> isDev (Fields (last xs)))"
      by simp
    then have ih: "scanFS f r (xs @ rest) =
        (case scanFS f r xs of None \<Rightarrow> None | Some r' \<Rightarrow> scanFS 0 r' rest)" for f r
      using Cons.IH by blast
    show ?thesis unfolding append_Cons using ih by (rule scanFS_Cons_append)
  qed
qed

lemma scanFS_wrapped_entry_step:
  assumes "Fields l1 = [d]" "Fields l2 = t # u # f # p # mp # others"
      and "Index d ''/dev/'' = 0"
      and "ParseUint t = Some tv" "ParseUint u = Some uv" "ParseUint f = Some fv"
  shows "scanFS 0 res (l1 # l2 # post) =
           scanFS 0 (res @ [\<lparr>MountPoint = mp, FSInfo.Total = tv, Used = uv,
                               FSInfo.Free = fv\<rparr>]) post"
  using assms by (simp add: isDev_Cons parseRow_def elemAt_def)

lemma ParseUint_df_examples:
  "ParseUint ''1000'' = Some 1000" "ParseUint ''200'' = Some 200" "ParseUint ''800'' = Some 800"
  "ParseUint ''5'' = Some 5" "ParseUint ''4'' = Some 4" "ParseUint ''1'' = Some 1"
  "ParseUint ''50'' = Some 50" "ParseUint ''10'' = Some 10" "ParseUint ''40'' = Some 40"
  by (simp_all add: ParseUint_def isDigit_def decimal_def)

text \<open>
  Claim C9 says that the single-line layout of an entry and its two-line layout (the
  device alone on a line, the columns on the next) parse to identical \<open>FSInfo\<close> values.
  The loop takes a lone token for a wrapped device name only when it begins with
  \<open>/dev/\<close>, and it shifts the columns of whatever line follows such a token. So the
  two layouts differ in two cases. For a device that is not under \<open>/dev/\<close> (a network
  file system) the single line parses to its entry and the two-line layout does not
  return. And for an entry that directly follows a device path alone, the single line is
  read with shifted columns and skipped, while its two-line layout gives the entry.
\<close>

theorem GetFSInfos_layouts_differ:
  "GetFSInfos (\<lambda>cmd. Inr ''fileserver:/export/home 1000 200 800 20% /home\<newline>'') =
     Some ([\<lparr>MountPoint = ''/home'', FSInfo.Total = 1000, Used = 200, FSInfo.Free = 800\<rparr>],
           None) \<and>
   GetFSInfos (\<lambda>cmd. Inr ''fileserver:/export/home\<newline>    1000 200 800 20% /home\<newline>'') = None \<and>
   GetFSInfos (\<lambda>cmd. Inr ''/dev/sda1\<newline>/dev/sdb1 1000 200 800 20% /data\<newline>'') =
     Some ([], None) \<and>
   GetFSInfos (\<lambda>cmd. Inr ''/dev/sda1\<newline>/dev/sdb1\<newline>    1000 200 800 20% /data\<newline>'') =
     Some ([\<lparr>MountPoint = ''/data'', FSInfo.Total = 1000, Used = 200, FSInfo.Free = 800\<rparr>],
           None)"
  by (simp add: GetFSInfos_def ScanLines_def dropCR_def Fields_def parseRow_def elemAt_def
      isDev_def asciiSpace_def ParseUint_def isDigit_def decimal_def)

text \<open>
  Claim C9, amended. Take an entry whose device token begins with \<open>/dev/\<close>, with at
  least two further columns, standing in a table after the lines \<open>pre\<close> and before the
  lines \<open>post\<close>, where the line just before it (if any) is not a device path alone.
  Then \<open>GetFSInfos\<close> gives the same result for the table with the entry on one line
  and for the table with the device alone on a line and the columns on the next. If
  moreover the lines before the entry parse (to the list \<open>before\<close>) and the first three
  columns are numbers, the result in both layouts is that of scanning the lines after
  the entry from \<open>before\<close> extended by one entry: the mount point is the fifth column
  and total, used and free are the first three; so whenever \<open>GetFSInfos\<close> returns, that
  entry stands in the result right after \<open>before\<close>. Nothing is stated for a device
  name that does not begin with \<open>/dev/\<close>.
\<close>

theorem GetFSInfos_dev_entry_layouts_agree:
  assumes "ScanLines single = pre @ [l] @ post"
      and "ScanLines wrapped = pre @ [l1, l2] @ post"
      and "Fields l = d # cols" and "Fields l1 = [d]" and "Fields l2 = cols"
      and "Index d ''/dev/'' = 0"
      and "2 \<le> length cols"
      and "pre = [] \<or> \<not> (length (Fields (last pre)) = 1 \<and> isDev (Fields (last pre)))"
  shows "GetFSInfos (\<lambda>cmd. Inr single) = GetFSInfos (\<lambda>cmd. Inr wrapped) \<and>
         (scanFS 0 [] pre = Some before \<and> cols = t # u # f # p # mp # others \<and>
          ParseUint t = Some tv \<and> ParseUint u = Some uv \<and> ParseUint f = Some fv \<longrightarrow>
            GetFSInfos (\<lambda>cmd. Inr wrapped) =
              (case scanFS 0 (before @ [\<lparr>MountPoint = mp, FSInfo.Total = tv, Used = uv,
                                          FSInfo.Free = fv\<rparr>]) post of
                 None \<Rightarrow> None
               | Some res \<Rightarrow> Some (res, None)) \<and>
            (\<forall>out err. GetFSInfos (\<lambda>cmd. Inr wrapped) = Some (out, err) \<longrightarrow>
               take (Suc (length before)) out =
                 before @ [\<lparr>MountPoint = mp, FSInfo.Total = tv, Used = uv,
                             FSInfo.Free = fv\<rparr>]))"
proof -
  have c: "(pre = [] \<and> (0::int) = 0) \<or>
           (pre \<noteq> [] \<and> \<not> (length (Fields (last pre)) = 1 \<and> isDev (Fields (last pre))))"
    using assms(8) by auto
  have "scanFS 0 [] (pre @ l # post) = scanFS 0 [] (pre @ l1 # l2 # post)"
    using scanFS_context [OF assms(3-7) c] .
  then have eq: "GetFSInfos (\<lambda>cmd. Inr single) = GetFSInfos (\<lambda>cmd. Inr wrapped)"
    using assms(1,2) by (simp add: GetFSInfos_def)
  have val: "GetFSInfos (\<lambda>cmd. Inr wrapped) =
              (case scanFS 0 (before @ [\<lparr>MountPoint = mp, FSInfo.Total = tv, Used = uv,
                                          FSInfo.Free = fv\<rparr>]) post of
                 None \<Rightarrow> None
               | Some res \<Rightarrow> Some (res, None)) \<and>
            (\<forall>out err. GetFSInfos (\<lambda>cmd. Inr wrapped) = Some (out, err) \<longrightarrow>
               take (Suc (length before)) out =
                 before @ [\<lparr>MountPoint = mp, FSInfo.Total = tv, Used = uv,
                             FSInfo.Free = fv\<rparr>])"
    if h: "scanFS 0 [] pre = Some before \<and> cols = t # u # f # p # mp # others \<and>
           ParseUint t = Some tv \<and> ParseUint u = Some uv \<and> ParseUint f = Some fv"
  proof -
    let ?e = "\<lparr>MountPoint = mp, FSInfo.Total = tv, Used = uv, FSInfo.Free = fv\<rparr>"
    have f2: "Fields l2 = t # u # f # p # mp # others" using assms(5) h by simp
    have "scanFS 0 [] (pre @ l1 # l2 # post) = scanFS 0 before (l1 # l2 # post)"
      using scanFS_append [OF c, of "[]" "l1 # l2 # post"] h by simp
    also have "\<dots> = scanFS 0 (before @ [?e]) post"
      using scanFS_wrapped_entry_step [OF assms(4) f2 assms(6)] h by simp
    finally have s: "scanFS 0 [] (pre @ l1 # l2 # post) = scanFS 0 (before @ [?e]) post" .
    have v: "GetFSInfos (\<lambda>cmd. Inr wrapped) =
               (case scanFS 0 (before @ [?e]) post of
                  None \<Rightarrow> None
                | Some res \<Rightarrow> Some (res, None))"
      using assms(2) s by (simp add: GetFSInfos_def)
    have "take (Suc (length before)) out = before @ [?e]"
      if r: "GetFSInfos (\<lambda>cmd. Inr wrapped) = Some (out, err)" for out err
    proof -
      from r v have "scanFS 0 (before @ [?e]) post = Some out"
        by (auto split: option.splits)
      then obtain others' where "out = (before @ [?e]) @ others'"
        using scanFS_extends by blast
      then show ?thesis by simp
    qed
    with v show ?thesis by blast
  qed
  with eq show ?thesis by blast
qed

lemma ScanLines_df_single:
  "ScanLines ''Filesystem 1B-blocks Used Available Use% Mounted on\<newline>/dev/sda1 5 4 1 80% /boot\<newline>/dev/mapper/vg0-root 1000 200 800 20% /\<newline>tmpfs 50 10 40 20% /run\<newline>'' =
     [''Filesystem 1B-blocks Used Available Use% Mounted on'', ''/dev/sda1 5 4 1 80% /boot''] @
     [''/dev/mapper/vg0-root 1000 200 800 20% /''] @ [''tmpfs 50 10 40 20% /run'']"
  by (simp add: ScanLines_def dropCR_def)

lemma ScanLines_df_wrapped:
  "ScanLines ''Filesystem 1B-blocks Used Available Use% Mounted on\<newline>/dev/sda1 5 4 1 80% /boot\<newline>/dev/mapper/vg0-root\<newline>    1000 200 800 20% /\<newline>tmpfs 50 10 40 20% /run\<newline>'' =
     [''Filesystem 1B-blocks Used Available Use% Mounted on'', ''/dev/sda1 5 4 1 80% /boot''] @
     [''/dev/mapper/vg0-root'', ''    1000 200 800 20% /''] @ [''tmpfs 50 10 40 20% /run'']"
  by (simp add: ScanLines_def dropCR_def)

lemma Fields_df_examples:
  "Fields ''/dev/mapper/vg0-root 1000 200 800 20% /'' =
     ''/dev/mapper/vg0-root'' # [''1000'', ''200'', ''800'', ''20%'', ''/'']"
  "Fields ''/dev/mapper/vg0-root'' = [''/dev/mapper/vg0-root'']"
  "Fields ''    1000 200 800 20% /'' = [''1000'', ''200'', ''800'', ''20%'', ''/'']"
  "Fields ''Filesystem 1B-blocks Used Available Use% Mounted on'' =
     [''Filesystem'', ''1B-blocks'', ''Used'', ''Available'', ''Use%'', ''Mounted'', ''on'']"
  "Fields ''/dev/sda1 5 4 1 80% /boot'' = [''/dev/sda1'', ''5'', ''4'', ''1'', ''80%'', ''/boot'']"
  "Fields ''tmpfs 50 10 40 20% /run'' = [''tmpfs'', ''50'', ''10'', ''40'', ''20%'', ''/run'']"
  by (simp_all add: Fields_def asciiSpace_def)

lemma scanFS_df_before:
  "scanFS 0 [] [''Filesystem 1B-blocks Used Available Use% Mounted on'',
                ''/dev/sda1 5 4 1 80% /boot''] =
     Some [\<lparr>MountPoint = ''/boot'', FSInfo.Total = 5, Used = 4, FSInfo.Free = 1\<rparr>]"
  by (simp add: Fields_df_examples ParseUint_df_examples isDev_def parseRow_def elemAt_def
      ParseUint_def isDigit_def decimal_def)

lemma scanFS_df_after:
  "scanFS 0 [\<lparr>MountPoint = ''/boot'', FSInfo.Total = 5, Used = 4, FSInfo.Free = 1\<rparr>,
             \<lparr>MountPoint = ''/'', FSInfo.Total = 1000, Used = 200, FSInfo.Free = 800\<rparr>]
     [''tmpfs 50 10 40 20% /run''] =
     Some [\<lparr>MountPoint = ''/boot'', FSInfo.Total = 5, Used = 4, FSInfo.Free = 1\<rparr>,
           \<lparr>MountPoint = ''/'', FSInfo.Total = 1000, Used = 200, FSInfo.Free = 800\<rparr>,
           \<lparr>MountPoint = ''/run'', FSInfo.Total = 50, Used = 10, FSInfo.Free = 40\<rparr>]"
  by (simp add: Fields_df_examples ParseUint_df_examples isDev_def parseRow_def elemAt_def)

theorem GetFSInfos_dev_entry_layouts_witness:
  "GetFSInfos (\<lambda>cmd. Inr ''Filesystem 1B-blocks Used Available Use% Mounted on\<newline>/dev/sda1 5 4 1 80% /boot\<newline>/dev/mapper/vg0-root 1000 200 800 20% /\<newline>tmpfs 50 10 40 20% /run\<newline>'') =
   GetFSInfos (\<lambda>cmd. Inr ''Filesystem 1B-blocks Used Available Use% Mounted on\<newline>/dev/sda1 5 4 1 80% /boot\<newline>/dev/mapper/vg0-root\<newline>    1000 200 800 20% /\<newline>tmpfs 50 10 40 20% /run\<newline>'') \<and>
   GetFSInfos (\<lambda>cmd. Inr ''Filesystem 1B-blocks Used Available Use% Mounted on\<newline>/dev/sda1 5 4 1 80% /boot\<newline>/dev/mapper/vg0-root\<newline>    1000 200 800 20% /\<newline>tmpfs 50 10 40 20% /run\<newline>'') =
     Some ([\<lparr>MountPoint = ''/boot'', FSInfo.Total = 5, Used = 4, FSInfo.Free = 1\<rparr>,
            \<lparr>MountPoint = ''/'', FSInfo.Total = 1000, Used = 200, FSInfo.Free = 800\<rparr>,
            \<lparr>MountPoint = ''/run'', FSInfo.Total = 50, Used = 10, FSInfo.Free = 40\<rparr>], None)"
proof -
  have d: "Index ''/dev/mapper/vg0-root'' ''/dev/'' = 0" by simp
  have c: "2 \<le> length [''1000'', ''200'', ''800'', ''20%'', ''/'']" by simp
  have p: "[''Filesystem 1B-blocks Used Available Use% Mounted on'',
            ''/dev/sda1 5 4 1 80% /boot''] = [] \<or>
     \<not> (length (Fields (last [''Filesystem 1B-blocks Used Available Use% Mounted on'',
                                ''/dev/sda1 5 4 1 80% /boot''])) = 1 \<and>
        isDev (Fields (last [''Filesystem 1B-blocks Used Available Use% Mounted on'',
                             ''/dev/sda1 5 4 1 80% /boot''])))"
    by (simp add: Fields_df_examples)
  show ?thesis
    using GetFSInfos_dev_entry_layouts_agree
            [OF ScanLines_df_single ScanLines_df_wrapped Fields_df_examples(1-3) d c p,
             of "[\<lparr>MountPoint = ''/boot'', FSInfo.Total = 5, Used = 4, FSInfo.Free = 1\<rparr>]"
                "''1000''" "''200''" "''800''" "''20%''" "''/''" "[]" 1000 200 800]
    by (simp add: ParseUint_df_examples scanFS_df_before scanFS_df_after del: scanFS.simps)
qed

text \<open>
  The same on the text itself, for every entry written with visible words: the row with
  the device and the columns on one line, against the device alone on a line followed
  by the columns indented by any number of blanks.
\<close>

lemma spaceLen_plain: "plainByte c \<Longrightarrow> spaceLen (c # r) = 0"
  by (simp add: plainByte_def asciiSpace_def Let_def)

lemma fieldsFrom_plain:
  "list_all plainByte w \<Longrightarrow> fieldsFrom 0 cur (w @ rest) = fieldsFrom 0 (rev w @ cur) rest"
  by (induction w arbitrary: cur) (simp_all add: spaceLen_plain del: spaceLen.simps)

lemma fieldsFrom_blank:
  "fieldsFrom 0 cur (CHR '' '' # rest) =
     (if cur = [] then fieldsFrom 0 [] rest else rev cur # fieldsFrom 0 [] rest)"
  by (simp add: asciiSpace_def)

lemma fieldsFrom_pad: "fieldsFrom 0 [] (replicate k (CHR '' '') @ rest) = fieldsFrom 0 [] rest"
  by (induction k) (simp_all add: fieldsFrom_blank del: fieldsFrom.simps)

lemma fieldsFrom_word:
  "visibleWord w \<Longrightarrow> fieldsFrom 0 [] (w @ CHR '' '' # rest) = w # fieldsFrom 0 [] rest"
  by (simp add: visibleWord_def fieldsFrom_plain fieldsFrom_blank del: fieldsFrom.simps)

lemma fieldsFrom_last_word: "visibleWord w \<Longrightarrow> fieldsFrom 0 [] w = [w]"
  using fieldsFrom_plain [of w "[]" "[]"] by (simp add: visibleWord_def)

lemma fieldsFrom_row: "list_all visibleWord ws \<Longrightarrow> fieldsFrom 0 [] (row ws) = ws"
  by (induction ws rule: row.induct)
     (simp_all add: fieldsFrom_word fieldsFrom_last_word del: fieldsFrom.simps(2))

lemma Fields_row:
  "list_all visibleWord ws \<Longrightarrow> Fields (replicate k (CHR '' '') @ row ws) = ws"
  by (simp add: Fields_def fieldsFrom_pad fieldsFrom_row del: fieldsFrom.simps)

lemma scanFrom_line:
  "CHR 0x0A \<notin> set l \<Longrightarrow>
     scanFrom cur (l @ CHR 0x0A # rest) =
       (if 65535 < length cur + length l then [] else dropCR (rev cur @ l) # scanFrom [] rest)"
  by (induction l arbitrary: cur) auto

lemma plain_not_newline: "list_all plainByte w \<Longrightarrow> CHR 0x0A \<notin> set w"
  by (auto simp: list_all_iff plainByte_def)

lemma dropCR_word_end: "visibleWord w \<Longrightarrow> dropCR (l @ w) = l @ w"
proof -
  assume w: "visibleWord w"
  then have "last w \<in> set w" by (simp add: visibleWord_def)
  with w have "plainByte (last w)" by (auto simp: visibleWord_def list_all_iff)
  then have "last w \<noteq> CHR 0x0D" by (auto simp: plainByte_def)
  with w show ?thesis by (simp add: dropCR_def visibleWord_def)
qed

lemma row_no_newline: "list_all visibleWord ws \<Longrightarrow> CHR 0x0A \<notin> set (row ws)"
  by (induction ws rule: row.induct) (auto simp: visibleWord_def dest: plain_not_newline)

lemma row_end: "list_all visibleWord ws \<Longrightarrow> ws \<noteq> [] \<Longrightarrow> \<exists>l. row ws = l @ last ws"
  by (induction ws rule: row.induct) auto

lemma dropCR_row:
  "list_all visibleWord ws \<Longrightarrow> ws \<noteq> [] \<Longrightarrow> dropCR (l @ row ws) = l @ row ws"
proof -
  assume a: "list_all visibleWord ws" "ws \<noteq> []"
  then obtain l' where l': "row ws = l' @ last ws" using row_end by blast
  from a have "visibleWord (last ws)" by (simp add: list_all_iff)
  then show ?thesis using dropCR_word_end [of "last ws" "l @ l'"] l' by simp
qed

lemma ScanLines_one_row:
  assumes "list_all visibleWord ws" "ws \<noteq> []" "k + length (row ws) \<le> 65535"
  shows "ScanLines (replicate k (CHR '' '') @ row ws @ [CHR 0x0A]) =
           [replicate k (CHR '' '') @ row ws]"
proof -
  have n: "CHR 0x0A \<notin> set (replicate k (CHR '' '') @ row ws)"
    using row_no_newline [OF assms(1)] by auto
  show ?thesis
    using scanFrom_line [OF n, of "[]" "[]"] assms dropCR_row [OF assms(1,2)]
    by (simp add: ScanLines_def)
qed

lemma ScanLines_two_rows:
  assumes "list_all visibleWord ws" "ws \<noteq> []" "k + length (row ws) \<le> 65535"
      and "visibleWord d" "length d \<le> 65535"
  shows "ScanLines (d @ CHR 0x0A # replicate k (CHR '' '') @ row ws @ [CHR 0x0A]) =
           [d, replicate k (CHR '' '') @ row ws]"
proof -
  have n: "CHR 0x0A \<notin> set d" using assms(4) by (simp add: visibleWord_def plain_not_newline)
  have "dropCR d = d" using dropCR_word_end [OF assms(4), of "[]"] by simp
  then show ?thesis
    using scanFrom_line [OF n, of "[]" "replicate k (CHR '' '') @ row ws @ [CHR 0x0A]"]
      ScanLines_one_row [OF assms(1-3)] assms(5)
    by (simp add: ScanLines_def)
qed

lemma GetFSInfos_layouts_agree_on_text:
  assumes "visibleWord d" and "Index d ''/dev/'' = 0"
      and "list_all visibleWord cols" and "2 \<le> length cols"
      and "length (row (d # cols)) \<le> 65535" and "k + length (row cols) \<le> 65535"
  shows "GetFSInfos (\<lambda>cmd. Inr (row (d # cols) @ [CHR 0x0A])) =
         GetFSInfos (\<lambda>cmd. Inr (d @ CHR 0x0A # replicate k (CHR '' '') @ row cols @ [CHR 0x0A]))"
proof -
  have ne: "cols \<noteq> []" using assms(4) by auto
  have all: "list_all visibleWord (d # cols)" using assms(1,3) by simp
  have s1: "ScanLines (row (d # cols) @ [CHR 0x0A]) = [row (d # cols)]"
    using ScanLines_one_row [of "d # cols" 0] all assms(5) by simp
  have dl: "length d \<le> 65535"
  proof -
    obtain c cs where "cols = c # cs" using ne by (cases cols) auto
    then show ?thesis using assms(5) by simp
  qed
  have s2: "ScanLines (d @ CHR 0x0A # replicate k (CHR '' '') @ row cols @ [CHR 0x0A]) =
              [d, replicate k (CHR '' '') @ row cols]"
    using ScanLines_two_rows [OF assms(3) ne assms(6) assms(1) dl] by simp
  have f1: "Fields (row (d # cols)) = d # cols" using Fields_row [OF all, of 0] by simp
  have f2: "Fields d = [d]" using Fields_row [of "[d]" 0] assms(1) by simp
  have f3: "Fields (replicate k (CHR '' '') @ row cols) = cols"
    using Fields_row [OF assms(3)] .
  have "scanFS 0 [] [row (d # cols)] = scanFS 0 [] [d, replicate k (CHR '' '') @ row cols]"
    using scanFS_entry [OF f1 f2 f3 assms(2,4)] .
  then show ?thesis by (simp add: GetFSInfos_def s1 s2)
qed

subsection \<open>Host alias resolution\<close>

lemma rangeMatch_Cons:
  "rangeMatch Match ((h, s) # rest) name =
     (if fst (Match h name) \<and> snd (Match h name) = None then Some s
      else rangeMatch Match rest name)"
  by (simp split: prod.splits)

lemma rangeMatch_None:
  "\<forall>(h, s) \<in> set HostInfo. \<not> (fst (Match h name) \<and> snd (Match h name) = None) \<Longrightarrow>
     rangeMatch Match HostInfo name = None"
  by (induction HostInfo) (auto simp: rangeMatch_Cons simp del: rangeMatch.simps(2))

lemma rangeMatch_Some:
  "rangeMatch Match HostInfo name = Some s \<Longrightarrow>
     \<exists>h. (h, s) \<in> set HostInfo \<and> fst (Match h name) \<and> snd (Match h name) = None"
proof (induction HostInfo)
  case Nil
  then show ?case by simp
next
  case (Cons x xs)
  obtain h' s' where x: "x = (h', s')" by (cases x)
  show ?case
  proof (cases "fst (Match h' name) \<and> snd (Match h' name) = None")
    case True
    with Cons.prems x have "s' = s" by (simp add: rangeMatch_Cons del: rangeMatch.simps(2))
    with True x show ?thesis by auto
  next
    case False
    with Cons.prems x have "rangeMatch Match xs name = Some s"
      by (simp add: rangeMatch_Cons del: rangeMatch.simps(2))
    then show ?thesis using Cons.IH by auto
  qed
qed

lemma getFull_self:
  "getFull d name d =
     (Section.Hostname d, (if Port d > 0 then Port d else 0), Section.User d, IdentityFile d)"
  by (simp add: getFull_def)

text \<open>
  Claim C5 says that a name with neither an exact nor a glob match resolves to the
  literal name as host name, the \<open>*\<close> section giving only port, user and identity file.
  In \<open>GetSshEntry\<close> the default \<open>Section{Hostname: name}\<close> is replaced as a whole by the
  \<open>*\<close> section when the table has one, so the host name returned is that section's
  (empty unless it sets one). In the example table the name \<open>db/1\<close> matches no pattern
  at all (the star does not match a slash) and \<open>db1\<close> matches only \<open>*\<close>; both resolve
  to the empty host name. (The caller keeps its own host when the one returned is empty.)
\<close>

theorem GetSshEntry_star_section_hostname_not_literal_name:
  "map_of exampleHostInfo ''db/1'' = None \<and>
   rangeMatch MatchPrefixStar exampleHostInfo ''db/1'' = None \<and>
   GetSshEntry MatchPrefixStar exampleHostInfo ''db/1'' =
     ('''', 2222, ''root'', ''~/.ssh/id_ed25519'') \<and>
   fst (GetSshEntry MatchPrefixStar exampleHostInfo ''db/1'') \<noteq> ''db/1'' \<and>
   map_of exampleHostInfo ''db1'' = None \<and>
   fst (MatchPrefixStar ''web-*'' ''db1'') = False \<and>
   GetSshEntry MatchPrefixStar exampleHostInfo ''db1'' =
     ('''', 2222, ''root'', ''~/.ssh/id_ed25519'') \<and>
   fst (GetSshEntry MatchPrefixStar exampleHostInfo ''db1'') \<noteq> ''db1''"
  by (simp add: GetSshEntry_def exampleHostInfo_def getFull_def MatchPrefixStar_def)

text \<open>
  Claim C5, amended. For every alias table, every requested name and every matcher:
  when the table has a section under the exact name, the result is built from that
  section (each field its own value if set, else the value of the \<open>*\<close> section, or of
  \<open>Section{Hostname: name}\<close> if there is none), whatever patterns match as well; when
  there is no exact section and no pattern of the table matches, the result is the four
  fields of the \<open>*\<close> section if the table has one, and the literal name with port 0 and
  empty user and identity file if it has none; and when the table has a \<open>*\<close> section
  and no pattern other than \<open>*\<close> matches, the host name returned is the host name of
  the \<open>*\<close> section, not the requested name.
\<close>

theorem GetSshEntry_resolution:
  "(map_of HostInfo name = Some s \<longrightarrow>
      GetSshEntry Match HostInfo name =
        getFull s name (case map_of HostInfo ''*'' of
                          Some defcfg \<Rightarrow> defcfg
                        | None \<Rightarrow> \<lparr>Hostname = name, Port = 0, User = '''', IdentityFile = ''''\<rparr>)) \<and>
   (map_of HostInfo name = None \<and>
    (\<forall>(h, s) \<in> set HostInfo. \<not> (fst (Match h name) \<and> snd (Match h name) = None)) \<longrightarrow>
      GetSshEntry Match HostInfo name =
        (case map_of HostInfo ''*'' of
           Some d \<Rightarrow> (Section.Hostname d, Port d, Section.User d, IdentityFile d)
         | None \<Rightarrow> (name, 0, '''', ''''))) \<and>
   (map_of HostInfo name = None \<and> map_of HostInfo ''*'' = Some d \<and>
    distinct (map fst HostInfo) \<and>
    (\<forall>(h, s) \<in> set HostInfo.
        h = ''*'' \<or> \<not> (fst (Match h name) \<and> snd (Match h name) = None)) \<longrightarrow>
      fst (GetSshEntry Match HostInfo name) = Section.Hostname d)"
proof (intro conjI impI)
  assume "map_of HostInfo name = Some s"
  then show "GetSshEntry Match HostInfo name =
        getFull s name (case map_of HostInfo ''*'' of
                          Some defcfg \<Rightarrow> defcfg
                        | None \<Rightarrow> \<lparr>Hostname = name, Port = 0, User = '''', IdentityFile = ''''\<rparr>)"
    by (simp add: GetSshEntry_def)
next
  assume a: "map_of HostInfo name = None \<and>
    (\<forall>(h, s) \<in> set HostInfo. \<not> (fst (Match h name) \<and> snd (Match h name) = None))"
  then have "rangeMatch Match HostInfo name = None" by (simp add: rangeMatch_None)
  with a show "GetSshEntry Match HostInfo name =
        (case map_of HostInfo ''*'' of
           Some d \<Rightarrow> (Section.Hostname d, Port d, Section.User d, IdentityFile d)
         | None \<Rightarrow> (name, 0, '''', ''''))"
    by (simp add: GetSshEntry_def split: option.splits)
next
  assume a: "map_of HostInfo name = None \<and> map_of HostInfo ''*'' = Some d \<and>
    distinct (map fst HostInfo) \<and>
    (\<forall>(h, s) \<in> set HostInfo.
        h = ''*'' \<or> \<not> (fst (Match h name) \<and> snd (Match h name) = None))"
  show "fst (GetSshEntry Match HostInfo name) = Section.Hostname d"
  proof (cases "rangeMatch Match HostInfo name")
    case None
    with a show ?thesis by (simp add: GetSshEntry_def)
  next
    case (Some s')
    then obtain h where h: "(h, s') \<in> set HostInfo"
        "fst (Match h name) \<and> snd (Match h name) = None"
      using rangeMatch_Some by blast
    with a have "h = ''*''" by auto
    with h(1) a have "s' = d" by (auto dest: map_of_is_SomeI)
    with a Some show ?thesis by (simp add: GetSshEntry_def getFull_self)
  qed
qed

theorem GetSshEntry_resolution_witness:
  "map_of exampleHostInfo ''web-1'' =
     Some \<lparr>Hostname = ''10.0.0.1'', Port = 0, User = ''admin'', IdentityFile = ''''\<rparr> \<and>
   fst (MatchPrefixStar ''web-*'' ''web-1'') \<and>
   GetSshEntry MatchPrefixStar exampleHostInfo ''web-1'' =
     (''10.0.0.1'', 2222, ''admin'', ''~/.ssh/id_ed25519'') \<and>
   map_of exampleHostInfo ''db/1'' = None \<and>
   GetSshEntry MatchPrefixStar exampleHostInfo ''db/1'' =
     ('''', 2222, ''root'', ''~/.ssh/id_ed25519'') \<and>
   map_of [(''web-1'', \<lparr>Hostname = ''10.0.0.1'', Port = 0, User = ''admin'',
                         IdentityFile = ''''\<rparr>)] ''db1'' = None \<and>
   GetSshEntry MatchPrefixStar
     [(''web-1'', \<lparr>Hostname = ''10.0.0.1'', Port = 0, User = ''admin'', IdentityFile = ''''\<rparr>)]
     ''db1'' = (''db1'', 0, '''', '''') \<and>
   map_of exampleHostInfo ''db1'' = None \<and>
   distinct (map fst exampleHostInfo) \<and>
   fst (GetSshEntry MatchPrefixStar exampleHostInfo ''db1'') = ''''"
  using GetSshEntry_resolution
          [of exampleHostInfo "''web-1''"
              "\<lparr>Hostname = ''10.0.0.1'', Port = 0, User = ''admin'', IdentityFile = ''''\<rparr>"
              MatchPrefixStar]
        GetSshEntry_resolution [of exampleHostInfo "''db/1''" _ MatchPrefixStar]
        GetSshEntry_resolution
          [of "[(''web-1'', \<lparr>Hostname = ''10.0.0.1'', Port = 0, User = ''admin'',
                                IdentityFile = ''''\<rparr>)]" "''db1''" _ MatchPrefixStar]
        GetSshEntry_resolution
          [of exampleHostInfo "''db1''" _ MatchPrefixStar
              "\<lparr>Hostname = '''', Port = 2222, User = ''root'',
                IdentityFile = ''~/.ssh/id_ed25519''\<rparr>"]
  by (simp add: exampleHostInfo_def MatchPrefixStar_def getFull_def)

subsection \<open>The filesystem parser on malformed lines\<close>

lemma scanFS_blank_line: "Fields line = [] \<Longrightarrow> scanFS flag res (line # rest) = None"
  by (auto simp: isDev_def parseRow_def elemAt_def)

lemma scanFS_lone_token:
  "Fields line = [tok] \<Longrightarrow> Index tok ''/dev/'' \<noteq> 0 \<Longrightarrow>
     scanFS 0 res (line # rest) = None"
  by (simp add: isDev_def parseRow_def elemAt_def)

text \<open>
  Claim C6 says that no probe parser panics on malformed input, and names the filesystem
  parser on blank lines and on lines of a single token that does not begin with
  \<open>/dev/\<close>. The loop of \<open>GetFSInfos\<close> guards only \<open>parts[0]\<close> (by \<open>n > 0\<close>); in its
  \<open>else\<close> branch it reads \<open>parts[1-i]\<close> unguarded. A blank line has no field, and a
  wrapped device name that is not under \<open>/dev/\<close> (a network file system) is a line of
  one field with \<open>i = 0\<close>: in both cases the index is out of range and the probe panics
  instead of returning.
\<close>

theorem GetFSInfos_panics_on_blank_line_and_lone_token:
  "GetFSInfos (\<lambda>cmd. Inr ''Filesystem 1B-blocks Used Available Use% Mounted on\<newline>/dev/sda1 1000 200 800 20% /\<newline>\<newline>'') = None \<and>
   GetFSInfos (\<lambda>cmd. Inr ''Filesystem 1B-blocks Used Available Use% Mounted on\<newline>fileserver:/export/home\<newline>    1000 200 800 20% /home\<newline>'') = None"
  by (simp add: GetFSInfos_def ScanLines_def dropCR_def Fields_def parseRow_def elemAt_def
      isDev_def asciiSpace_def ParseUint_def isDigit_def decimal_def)

subsection \<open>CPU percentages when the total is zero\<close>

lemma percent_zero: "percent 0 (float32_of_uint64 0) = NaN"
  by (simp add: percent_def float32_of_uint64_def round32_def)

text \<open>
  Claim C2 says that for an input whose parsed total is zero (all counters zero, or no
  \<open>cpu\<close> line) \<open>GetCPU\<close> returns nine percentages that are exactly 0, never NaN.
  \<open>GetCPU\<close> divides by \<open>float32(nowCPU.Total)\<close> without testing it: with all counters
  zero each field is \<open>0/0 * 100\<close>, which is NaN, and the call returns no error.
\<close>

theorem GetCPU_zero_total_gives_NaN:
  "GetCPU (\<lambda>cmd. Inr ''cpu  0 0 0 0 0 0 0 0 0 0\<newline>cpu0 0 0 0 0 0 0 0 0 0 0\<newline>'') =
     Some (\<lparr>CPUInfo.User = NaN, Nice = NaN, System = NaN, Idle = NaN, IOWait = NaN,
             IRQ = NaN, SoftIRQ = NaN, Steal = NaN, Guest = NaN\<rparr>, None) \<and>
   GetCPU (\<lambda>cmd. Inr ''intr 0\<newline>ctxt 0\<newline>'') =
     Some (\<lparr>CPUInfo.User = NaN, Nice = NaN, System = NaN, Idle = NaN, IOWait = NaN,
             IRQ = NaN, SoftIRQ = NaN, Steal = NaN, Guest = NaN\<rparr>, None)"
  by (simp add: GetCPU_def ScanLines_def dropCR_def Fields_def asciiSpace_def ParseUint_def
      isDigit_def decimal_def parseCPUFields_def setCounter_def zeroCPURaw_def percent_zero)

subsection \<open>Connecting through the agent\<close>

lemma tryAgentConnect_never_connects: "tryAgentConnect env user addr = None"
  by (simp add: tryAgentConnect_def Dial_def split: option.splits)


subsection \<open>A harvest in which one probe fails\<close>

lemma GetStats_returned:
  assumes "rUptime c = Some (uptime, e1)" and "rHostname c = Some (hostname, e2)"
      and "rLoad c = Some (loads, e3)" and "rMemInfo c = Some (mem, e4)"
      and "rFSInfos c = Some (fsInfos, e5)" and "rNetIPAddrs c = Some (netIpAddrs, e6)"
      and "rNetDevInfos c = Some (netDevInfos, e7)" and "rCPU c = Some (cpu, e8)"
  shows "GetStats c =
           Some (\<lparr>Uptime = uptime, Hostname = hostname, Loads = loads, CPU = cpu, MEM = mem,
                   FSInfos = fsInfos,
                   NetInterface = MergeNetInterfaces netIpAddrs netDevInfos\<rparr>,
                 Wait [e1, e2, e3, e4, e5, e6, e7, e8])"
  using assms by (simp add: GetStats_def)




end
